theory Spec2Isabelle
  imports Main "HOL-Library.Word"
begin

unbundle bit_operations_syntax

section \<open>snap-confine: the launcher of \<^verbatim>\<open>cmd/snap-confine/snap-confine.c\<close>\<close>

text \<open>
  The program is one \<^verbatim>\<open>main\<close> and one large helper,
  \<^verbatim>\<open>enter_non_classic_execution_environment\<close>, both of which are straight-line
  sequences of calls into the C library, the kernel and the private support library of
  snap-confine.  The embedding keeps the process state that the source reads back (the
  six user and group ids, the environment block) and records every call that leaves the
  file in a trace, in program order.  The answers of everything outside the file are
  gathered in one record, the \<open>world\<close>; theorems quantify over it.

  Calls to \<^verbatim>\<open>debug\<close> only log and are left out, as are the
  \<^verbatim>\<open>SC_CLEANUP\<close> handlers that free memory and close descriptors on scope exit.
  \<^verbatim>\<open>die\<close> and \<^verbatim>\<open>error\<close> are recorded by their format string.
\<close>

subsection \<open>Identities\<close>

type_synonym uid_t = "32 word"
type_synonym gid_t = "32 word"

text \<open>The result of \<^verbatim>\<open>getresuid\<close> and \<^verbatim>\<open>getresgid\<close>: real, effective
  and saved ids.\<close>

record creds =
  ruid :: uid_t
  euid :: uid_t
  suid :: uid_t
  rgid :: gid_t
  egid :: gid_t
  sgid :: gid_t

subsection \<open>Data of the source and of its headers\<close>

text \<open>\<^verbatim>\<open>struct sc_args\<close> is opaque in the source and read through the accessors
  \<^verbatim>\<open>sc_args_is_version_query\<close>, \<^verbatim>\<open>sc_args_security_tag\<close>,
  \<^verbatim>\<open>sc_args_executable\<close>, \<^verbatim>\<open>sc_args_base_snap\<close> (which may be NULL) and
  \<^verbatim>\<open>sc_args_is_classic_confinement\<close>.\<close>

record sc_args =
  args_is_version_query :: bool
  args_security_tag :: string
  args_executable :: string
  args_base_snap :: "string option"
  args_is_classic_confinement :: bool

text \<open>\<^verbatim>\<open>typedef struct sc_invocation\<close>, lines 98 to 105.\<close>

record sc_invocation =
  base_snap_name :: string
  security_tag :: string
  snap_instance :: string
  is_normal_mode :: bool

text \<open>\<^verbatim>\<open>struct sc_apparmor\<close> and its mode come from \<^verbatim>\<open>apparmor-support.h\<close>,
  which is not part of the file.  The source reads the two fields below and compares the
  mode with \<^verbatim>\<open>SC_AA_NOT_APPLICABLE\<close> only.\<close>

datatype sc_apparmor_mode =
    SC_AA_INVALID
  | SC_AA_NOT_APPLICABLE
  | SC_AA_ENFORCE
  | SC_AA_COMPLAIN
  | SC_AA_MIXED

record sc_apparmor =
  is_confined :: bool
  mode :: sc_apparmor_mode

datatype sc_feature_flag = SC_PER_USER_MOUNT_NAMESPACE

text \<open>Constants of the system headers: \<^verbatim>\<open>ESRCH\<close> of \<^verbatim>\<open>errno.h\<close> and
  \<^verbatim>\<open>GLOB_NOMATCH\<close> of \<^verbatim>\<open>glob.h\<close>.\<close>

definition ESRCH :: int where
  "ESRCH = 3"

definition GLOB_NOMATCH :: int where
  "GLOB_NOMATCH = 3"

subsection \<open>Calls that leave the file\<close>

text \<open>The two \<^verbatim>\<open>unshare(CLONE_NEWNS)\<close> calls are told apart by their site, as the
  debug message before each does in the source; \<^verbatim>\<open>sc_unlock\<close> is told apart by the
  lock whose descriptor it is given.\<close>

datatype site = Per_snap | Per_user

datatype lock = Global_lock | Snap_lock

datatype (plugins only: size) event =
    E_parse_args
  | E_printf_version
  | E_getenv string
  | E_secure_getenv string
  | E_setenv string string
  | E_instance_name_validate string
  | E_verify_security_tag string string
  | E_snap_name_validate string
  | E_is_hook_security_tag string
  | E_getresuid
  | E_getresgid
  | E_getuid
  | E_geteuid
  | E_getgid
  | E_getegid
  | E_getpid
  | E_setegid gid_t
  | E_seteuid uid_t
  | E_setgid gid_t
  | E_setuid uid_t
  | E_cookie_get_from_snapd string
  | E_error string
  | E_die string
  | E_init_apparmor_support
  | E_reassociate_with_pid1_mount_ns
  | E_lock_global
  | E_lock_snap string
  | E_unlock lock
  | E_ensure_shared_snap_mount
  | E_initialize_mount_ns
  | E_open_snap_update_ns
  | E_open_snap_discard_ns
  | E_open_mount_ns string
  | E_should_use_normal_mode string
  | E_fork_helper
  | E_join_preserved_ns int
  | E_unshare site
  | E_populate_mount_ns
  | E_preserve_populated_mount_ns
  | E_stat string
  | E_chmod string nat
  | E_chown string nat nat
  | E_glob string
  | E_unlink string
  | E_join_preserved_per_user_ns int
  | E_setup_user_mounts
  | E_feature_enabled sc_feature_flag
  | E_preserve_populated_per_user_mount_ns
  | E_cgroup_freezer_join string
  | E_close_mount_ns
  | E_udev_init string
  | E_setup_devices_cgroup string
  | E_udev_cleanup
  | E_setup_user_data
  | E_aa_change_onexec string
  | E_apply_seccomp_profile string
  | E_apply_global_seccomp
  | E_execv string
  | E_perror string

subsection \<open>The process and the world around it\<close>

record proc =
  ids :: creds
  env :: "string \<rightharpoonup> string"
  trace :: "event list"

text \<open>
  The world fixes what the environment of one launch answers.  \<open>fails\<close> says, for the
  calls made so far and the call being made, whether that call fails: a system call then
  returns \<open>-1\<close>, a function of the support library then calls \<^verbatim>\<open>die\<close> itself.
  The two build switches of the file, \<^verbatim>\<open>CAPS_OVER_SETUID\<close> and \<^verbatim>\<open>HAVE_SECCOMP\<close>,
  are fields as well.  The remaining fields are the values returned by the functions
  named in them.
\<close>

record world =
  init_ids :: creds
  init_env :: "string \<rightharpoonup> string"
  at_secure :: bool
  caps_over_setuid :: bool
  have_seccomp :: bool
  fails :: "event list \<Rightarrow> event \<Rightarrow> bool"
  parsed :: "string + sc_args"
  tag_verified :: "string \<Rightarrow> string \<Rightarrow> bool"
  is_hook_tag :: "string \<Rightarrow> bool"
  cookie :: "string option"
  cookie_err :: "string option"
  apparmor :: sc_apparmor
  normal_mode :: bool
  join_ns_ret :: int
  join_user_ns_ret :: int
  var_lib_mode :: "32 word"
  glob_ret :: int
  glob_paths :: "string list"
  feature_on :: "sc_feature_flag \<Rightarrow> bool"
  udev_init_ret :: int
  seccomp_applied :: bool

text \<open>How a run ends: \<^verbatim>\<open>die\<close> (exit status 1), a return from \<^verbatim>\<open>main\<close>, or the
  replacement of the process image by \<^verbatim>\<open>execv\<close>.\<close>

datatype halt = Fatal | Return int | Exec string

type_synonym 'a prog = "proc \<Rightarrow> (halt + 'a) \<times> proc"

definition ret :: "'a \<Rightarrow> 'a prog" where
  "ret x = (\<lambda>s. (Inr x, s))"

definition bnd :: "'a prog \<Rightarrow> ('a \<Rightarrow> 'b prog) \<Rightarrow> 'b prog" where
  "bnd m f = (\<lambda>s. case m s of (Inl h, s') \<Rightarrow> (Inl h, s') | (Inr x, s') \<Rightarrow> f x s')"

definition nxt :: "unit prog \<Rightarrow> 'b prog \<Rightarrow> 'b prog" where
  "nxt m n = bnd m (\<lambda>_. n)"

definition halt_with :: "halt \<Rightarrow> 'a prog" where
  "halt_with h = (\<lambda>s. (Inl h, s))"

definition emit :: "event \<Rightarrow> unit prog" where
  "emit e = (\<lambda>s. (Inr (), s\<lparr>trace := trace s @ [e]\<rparr>))"

definition die :: "string \<Rightarrow> 'a prog" where
  "die msg = nxt (emit (E_die msg)) (halt_with Fatal)"

text \<open>A function of the support library: it returns, or it dies inside.\<close>

definition call :: "world \<Rightarrow> event \<Rightarrow> unit prog" where
  "call w e = (\<lambda>s. (if fails w (trace s) e then Inl Fatal else Inr (), s\<lparr>trace := trace s @ [e]\<rparr>))"

fun calls :: "world \<Rightarrow> event list \<Rightarrow> unit prog" where
  "calls w [] = ret ()"
| "calls w (e # es) = nxt (call w e) (calls w es)"

text \<open>A system call whose only result is success or failure; the value is the C return
  value, \<open>0\<close> or \<open>-1\<close>.\<close>

definition sys :: "world \<Rightarrow> event \<Rightarrow> int prog" where
  "sys w e = (\<lambda>s. (Inr (if fails w (trace s) e then - 1 else 0), s\<lparr>trace := trace s @ [e]\<rparr>))"

subsection \<open>The environment block\<close>

definition getenv :: "string \<Rightarrow> string option prog" where
  "getenv name = (\<lambda>s. (Inr (env s name), s\<lparr>trace := trace s @ [E_getenv name]\<rparr>))"

text \<open>\<^verbatim>\<open>secure_getenv\<close> answers NULL in secure execution mode.\<close>

definition secure_getenv :: "world \<Rightarrow> string \<Rightarrow> string option prog" where
  "secure_getenv w name =
     (\<lambda>s. (Inr (if at_secure w then None else env s name),
           s\<lparr>trace := trace s @ [E_secure_getenv name]\<rparr>))"

text \<open>\<^verbatim>\<open>setenv(name, v, 1)\<close>: every call of the file overwrites.  A failed call leaves
  the block as it was.\<close>

definition setenv :: "world \<Rightarrow> string \<Rightarrow> string \<Rightarrow> int prog" where
  "setenv w name v =
     (\<lambda>s. if fails w (trace s) (E_setenv name v)
          then (Inr (- 1), s\<lparr>trace := trace s @ [E_setenv name v]\<rparr>)
          else (Inr 0, s\<lparr>env := (env s)(name \<mapsto> v), trace := trace s @ [E_setenv name v]\<rparr>))"

subsection \<open>The id system calls\<close>

definition getuid :: "uid_t prog" where
  "getuid = (\<lambda>s. (Inr (ruid (ids s)), s\<lparr>trace := trace s @ [E_getuid]\<rparr>))"

definition geteuid :: "uid_t prog" where
  "geteuid = (\<lambda>s. (Inr (euid (ids s)), s\<lparr>trace := trace s @ [E_geteuid]\<rparr>))"

definition getgid :: "gid_t prog" where
  "getgid = (\<lambda>s. (Inr (rgid (ids s)), s\<lparr>trace := trace s @ [E_getgid]\<rparr>))"

definition getegid :: "gid_t prog" where
  "getegid = (\<lambda>s. (Inr (egid (ids s)), s\<lparr>trace := trace s @ [E_getegid]\<rparr>))"

text \<open>\<^verbatim>\<open>getresuid\<close> and \<^verbatim>\<open>getresgid\<close> of lines 150 and 151 fill six locals; the
  model returns them as one snapshot.\<close>

definition getresuid_getresgid :: "creds prog" where
  "getresuid_getresgid =
     (\<lambda>s. (Inr (ids s), s\<lparr>trace := trace s @ [E_getresuid, E_getresgid]\<rparr>))"

text \<open>
  The setters follow setegid(2), seteuid(2), setgid(2) and setuid(2) for a process whose
  privilege is its effective user id 0: a privileged \<^verbatim>\<open>setgid\<close> or \<^verbatim>\<open>setuid\<close> sets the
  real, effective and saved id, an unprivileged one only the effective id and only to the
  real or saved id; \<^verbatim>\<open>setegid\<close> and \<^verbatim>\<open>seteuid\<close> set the effective id, an unprivileged
  caller only to one of its three ids.  \<open>permitted\<close> is the permission check, \<open>effect\<close>
  the change; the world may fail the call.
\<close>

definition id_call :: "world \<Rightarrow> event \<Rightarrow> (creds \<Rightarrow> bool) \<Rightarrow> (creds \<Rightarrow> creds) \<Rightarrow> int prog" where
  "id_call w e permitted effect =
     (\<lambda>s. if fails w (trace s) e \<or> \<not> permitted (ids s)
          then (Inr (- 1), s\<lparr>trace := trace s @ [e]\<rparr>)
          else (Inr 0, s\<lparr>ids := effect (ids s), trace := trace s @ [e]\<rparr>))"

definition setegid :: "world \<Rightarrow> gid_t \<Rightarrow> int prog" where
  "setegid w g =
     id_call w (E_setegid g)
       (\<lambda>c. euid c = 0 \<or> g = rgid c \<or> g = egid c \<or> g = sgid c)
       (\<lambda>c. c\<lparr>egid := g\<rparr>)"

definition seteuid :: "world \<Rightarrow> uid_t \<Rightarrow> int prog" where
  "seteuid w u =
     id_call w (E_seteuid u)
       (\<lambda>c. euid c = 0 \<or> u = ruid c \<or> u = euid c \<or> u = suid c)
       (\<lambda>c. c\<lparr>euid := u\<rparr>)"

definition setgid :: "world \<Rightarrow> gid_t \<Rightarrow> int prog" where
  "setgid w g =
     id_call w (E_setgid g)
       (\<lambda>c. euid c = 0 \<or> g = rgid c \<or> g = sgid c)
       (\<lambda>c. if euid c = 0 then c\<lparr>rgid := g, egid := g, sgid := g\<rparr> else c\<lparr>egid := g\<rparr>)"

definition setuid :: "world \<Rightarrow> uid_t \<Rightarrow> int prog" where
  "setuid w u =
     id_call w (E_setuid u)
       (\<lambda>c. euid c = 0 \<or> u = ruid c \<or> u = suid c)
       (\<lambda>c. if euid c = 0 then c\<lparr>ruid := u, euid := u, suid := u\<rparr> else c\<lparr>euid := u\<rparr>)"

subsection \<open>\<^verbatim>\<open>sc_maybe_fixup_permissions\<close> and \<^verbatim>\<open>sc_maybe_fixup_udev\<close>, lines 54 to 96\<close>

text \<open>\<open>511\<close> is octal 0777 and \<open>493\<close> is octal 0755.\<close>

definition sc_maybe_fixup_permissions :: "world \<Rightarrow> unit prog" where
  "sc_maybe_fixup_permissions w =
     bnd (sys w (E_stat ''/var/lib'')) (\<lambda>r.
     if r \<noteq> 0 then die ''cannot stat /var/lib''
     else if var_lib_mode w AND 511 = 511 then
       bnd (sys w (E_chmod ''/var/lib'' 493)) (\<lambda>r.
       if r \<noteq> 0 then die ''cannot chmod /var/lib''
       else
         bnd (sys w (E_chown ''/var/lib'' 0 0)) (\<lambda>r.
         if r \<noteq> 0 then die ''cannot chown /var/lib'' else ret ()))
     else ret ())"

text \<open>The loop of lines 93 to 95; the result of \<^verbatim>\<open>unlink\<close> is not read.\<close>

fun unlink_all :: "string list \<Rightarrow> unit prog" where
  "unlink_all [] = ret ()"
| "unlink_all (p # ps) = nxt (emit (E_unlink p)) (unlink_all ps)"

definition sc_maybe_fixup_udev :: "world \<Rightarrow> unit prog" where
  "sc_maybe_fixup_udev w =
     nxt (emit (E_glob ''/run/udev/tags/snap_*/*nvidia*''))
     (if glob_ret w = GLOB_NOMATCH then ret ()
      else if glob_ret w \<noteq> 0 then die ''cannot search using glob pattern %s: %d''
      else unlink_all (glob_paths w))"

subsection \<open>\<^verbatim>\<open>enter_non_classic_execution_environment\<close>, lines 269 to 411\<close>

text \<open>The function is given in the blocks its comments divide it into.  Lines 283 to 299:
  the global initialisation under the global lock, and the two helper executables.\<close>

definition enter_global_init :: "world \<Rightarrow> unit prog" where
  "enter_global_init w =
     calls w [E_reassociate_with_pid1_mount_ns, E_lock_global, E_ensure_shared_snap_mount,
              E_initialize_mount_ns, E_unlock Global_lock,
              E_open_snap_update_ns, E_open_snap_discard_ns]"

text \<open>Lines 302 to 310: the per-snap lock is taken and the mount namespace group opened.
  The returned invocation has \<open>is_normal_mode\<close> set, as line 310 does through the
  pointer.\<close>

definition enter_snap_lock :: "world \<Rightarrow> sc_invocation \<Rightarrow> sc_invocation prog" where
  "enter_snap_lock w invo =
     nxt (calls w [E_lock_snap (snap_instance invo), E_open_mount_ns (snap_instance invo),
                   E_should_use_normal_mode (base_snap_name invo)])
     (ret (invo\<lparr>is_normal_mode := normal_mode w\<rparr>))"

text \<open>Lines 315 to 330: the helper, the join attempt and, on \<^verbatim>\<open>ESRCH\<close>, the
  construction of a new namespace.\<close>

definition enter_snap_namespace :: "world \<Rightarrow> unit prog" where
  "enter_snap_namespace w =
     nxt (calls w [E_fork_helper, E_join_preserved_ns (join_ns_ret w)])
     (if join_ns_ret w = ESRCH then
        bnd (sys w (E_unshare Per_snap)) (\<lambda>r.
        if r < 0 then die ''cannot unshare the mount namespace''
        else calls w [E_populate_mount_ns, E_preserve_populated_mount_ns])
      else ret ())"

text \<open>Lines 338 to 360: the per-user namespace.\<close>

definition enter_user_namespace :: "world \<Rightarrow> uid_t \<Rightarrow> unit prog" where
  "enter_user_namespace w real_uid =
     (if real_uid \<noteq> 0 then
        nxt (call w (E_join_preserved_per_user_ns (join_user_ns_ret w)))
        (if join_user_ns_ret w = ESRCH then
           bnd (sys w (E_unshare Per_user)) (\<lambda>r.
           if r < 0 then die ''cannot unshare the mount namespace''
           else
             nxt (call w E_setup_user_mounts)
             (nxt (call w (E_feature_enabled SC_PER_USER_MOUNT_NAMESPACE))
             (if feature_on w SC_PER_USER_MOUNT_NAMESPACE
              then call w E_preserve_populated_per_user_mount_ns
              else ret ())))
         else ret ())
      else ret ())"

text \<open>Lines 364 to 375: the freezer control group, with the effective group raised
  around it.\<close>

definition enter_freezer :: "world \<Rightarrow> sc_invocation \<Rightarrow> gid_t \<Rightarrow> gid_t \<Rightarrow> unit prog" where
  "enter_freezer w invo real_gid saved_gid =
     bnd getegid (\<lambda>g.
     nxt (if g \<noteq> 0 \<and> saved_gid = 0 then
            bnd (setegid w 0) (\<lambda>r.
            if r \<noteq> 0 then die ''cannot set effective group id to root'' else ret ())
          else ret ())
     (nxt (emit E_getpid)
     (nxt (call w (E_cgroup_freezer_join (snap_instance invo)))
     (bnd geteuid (\<lambda>u.
     if u = 0 \<and> real_gid \<noteq> 0 then
       bnd (setegid w real_gid) (\<lambda>r.
       if r \<noteq> 0 then die ''cannot set effective group id to %d'' else ret ())
     else ret ())))))"

text \<open>Lines 377 to 379: the per-snap lock is released and the group closed.\<close>

definition enter_release :: "world \<Rightarrow> unit prog" where
  "enter_release w = calls w [E_unlock Snap_lock, E_close_mount_ns]"

text \<open>Lines 386 to 407: the search path, whose \<^verbatim>\<open>setenv\<close> result is not read, and
  the loop over \<^verbatim>\<open>tmpd\<close>, whose result is.\<close>

definition snap_PATH :: string where
  "snap_PATH = ''/usr/local/sbin:/usr/local/bin:/usr/sbin:/usr/bin:/sbin:/bin:/usr/games:/usr/local/games''"

definition tmpd :: "string list" where
  "tmpd = [''TMPDIR'', ''TEMPDIR'']"

text \<open>The format string of line 405, which ends with a single quote.\<close>

definition cannot_set_variable :: string where
  "cannot_set_variable = ''cannot set environment variable '%s'' @ [CHR 0x27]"

fun set_tmpdirs :: "world \<Rightarrow> string list \<Rightarrow> unit prog" where
  "set_tmpdirs w [] = ret ()"
| "set_tmpdirs w (v # vs) =
     bnd (setenv w v ''/tmp'') (\<lambda>r.
     if r \<noteq> 0 then die cannot_set_variable else set_tmpdirs w vs)"

definition enter_environment :: "world \<Rightarrow> unit prog" where
  "enter_environment w =
     bnd (setenv w ''PATH'' snap_PATH) (\<lambda>_. set_tmpdirs w tmpd)"

text \<open>Lines 408 to 410: the device control group.\<close>

definition enter_devices :: "world \<Rightarrow> sc_invocation \<Rightarrow> unit prog" where
  "enter_devices w invo =
     nxt (call w (E_udev_init (security_tag invo)))
     (nxt (if udev_init_ret w = 0 then call w (E_setup_devices_cgroup (security_tag invo))
           else ret ())
     (call w E_udev_cleanup))"

definition enter_non_classic_execution_environment ::
    "world \<Rightarrow> sc_invocation \<Rightarrow> uid_t \<Rightarrow> gid_t \<Rightarrow> gid_t \<Rightarrow> unit prog" where
  "enter_non_classic_execution_environment w invo real_uid real_gid saved_gid =
     nxt (enter_global_init w)
     (bnd (enter_snap_lock w invo) (\<lambda>invo.
     nxt (enter_snap_namespace w)
     (nxt (sc_maybe_fixup_permissions w)
     (nxt (sc_maybe_fixup_udev w)
     (nxt (enter_user_namespace w real_uid)
     (nxt (enter_freezer w invo real_gid saved_gid)
     (nxt (enter_release w)
     (nxt (enter_environment w)
     (enter_devices w invo)))))))))"

text \<open>\<^verbatim>\<open>enter_classic_execution_environment\<close>, lines 258 to 267, only logs.\<close>

definition enter_classic_execution_environment :: "unit prog" where
  "enter_classic_execution_environment = ret ()"

subsection \<open>\<^verbatim>\<open>main\<close>, lines 111 to 256\<close>

text \<open>Lines 113 to 145: the arguments, the instance name and the security tag.  The block
  returns the arguments and the invocation that line 195 builds from them.\<close>

definition main_arguments :: "world \<Rightarrow> (sc_args \<times> sc_invocation) prog" where
  "main_arguments w =
     nxt (emit E_parse_args)
     (case parsed w of
        Inl msg \<Rightarrow> die msg
      | Inr args \<Rightarrow>
          if args_is_version_query args then nxt (emit E_printf_version) (halt_with (Return 0))
          else
            bnd (getenv ''SNAP_INSTANCE_NAME'') (\<lambda>v.
            case v of
              None \<Rightarrow> die ''SNAP_INSTANCE_NAME is not set''
            | Some instance \<Rightarrow>
                nxt (call w (E_instance_name_validate instance))
                (nxt (call w (E_verify_security_tag (args_security_tag args) instance))
                (if \<not> tag_verified w (args_security_tag args) instance
                 then die ''security tag %s not allowed''
                 else
                   nxt (call w (E_snap_name_validate
                          (case args_base_snap args of None \<Rightarrow> ''core'' | Some b \<Rightarrow> b)))
                   (ret (args,
                         \<lparr>base_snap_name =
                            (case args_base_snap args of None \<Rightarrow> ''core'' | Some b \<Rightarrow> b),
                          security_tag = args_security_tag args,
                          snap_instance = instance,
                          is_normal_mode = False\<rparr>))))))"

text \<open>Lines 148 to 169: who are we, the early drop of the effective group, and the check
  for root that \<^verbatim>\<open>CAPS_OVER_SETUID\<close> removes.  The block returns the six ids read at
  lines 150 and 151, the locals \<^verbatim>\<open>real_uid\<close> to \<^verbatim>\<open>saved_gid\<close>.\<close>

definition main_identity :: "world \<Rightarrow> creds prog" where
  "main_identity w =
     bnd getresuid_getresgid (\<lambda>c.
     nxt (if egid c = 0 \<and> rgid c \<noteq> 0 then
            bnd (setegid w (rgid c)) (\<lambda>r.
            if r \<noteq> 0 then die ''cannot set effective group id to %d'' else ret ())
          else ret ())
     (nxt (if \<not> caps_over_setuid w then
             bnd geteuid (\<lambda>u.
             if u \<noteq> 0 then
               bnd (secure_getenv w ''SNAP_CONFINE_NO_ROOT'') (\<lambda>v.
               if v = None then die ''need to run as root or suid'' else ret ())
             else ret ())
           else ret ())
     (ret c)))"

text \<open>Lines 171 to 179: the cookie, not asked for when a hook runs.\<close>

definition main_cookie :: "world \<Rightarrow> sc_invocation \<Rightarrow> string option prog" where
  "main_cookie w invo =
     nxt (call w (E_is_hook_security_tag (security_tag invo)))
     (if \<not> is_hook_tag w (security_tag invo) then
        nxt (call w (E_cookie_get_from_snapd (snap_instance invo)))
        (nxt (case cookie_err w of None \<Rightarrow> ret () | Some msg \<Rightarrow> emit (E_error msg))
        (ret (cookie w)))
      else ret None)"

text \<open>Lines 181 to 192: the refusal to run unconfined with elevated permissions.  The
  condition is evaluated left to right and stops at the first false operand.\<close>

definition main_apparmor :: "world \<Rightarrow> unit prog" where
  "main_apparmor w =
     nxt (call w E_init_apparmor_support)
     (bnd (if \<not> is_confined (apparmor w) \<and> mode (apparmor w) \<noteq> SC_AA_NOT_APPLICABLE then
             bnd getuid (\<lambda>u.
             if u \<noteq> 0 then bnd geteuid (\<lambda>e. ret (e = 0)) else ret False)
           else ret False) (\<lambda>refuse.
     if refuse
     then die ''snap-confine has elevated permissions and is not confined but should be. Refusing to continue to avoid permission escalation attacks''
     else ret ()))"

text \<open>Lines 212 to 216: the temporary drop and its check.\<close>

definition temporary_drop :: "world \<Rightarrow> uid_t \<Rightarrow> gid_t \<Rightarrow> unit prog" where
  "temporary_drop w real_uid real_gid =
     bnd (setegid w real_gid) (\<lambda>r.
     if r \<noteq> 0 then die ''setegid failed''
     else
       bnd (seteuid w real_uid) (\<lambda>r.
       if r \<noteq> 0 then die ''seteuid failed''
       else
         bnd (if real_gid \<noteq> 0 then bnd geteuid (\<lambda>e. ret (e = 0)) else ret False) (\<lambda>bad.
         if bad then die ''dropping privs did not work''
         else
           bnd (if real_uid \<noteq> 0 then bnd getegid (\<lambda>g. ret (g = 0)) else ret False) (\<lambda>bad.
           if bad then die ''dropping privs did not work'' else ret ()))))"

text \<open>Lines 204 to 217.\<close>

definition main_enter :: "world \<Rightarrow> sc_args \<Rightarrow> sc_invocation \<Rightarrow> creds \<Rightarrow> unit prog" where
  "main_enter w args invo c =
     bnd geteuid (\<lambda>u.
     if u = 0 then
       nxt (if args_is_classic_confinement args then enter_classic_execution_environment
            else enter_non_classic_execution_environment w invo (ruid c) (rgid c) (sgid c))
       (temporary_drop w (ruid c) (rgid c))
     else ret ())"

text \<open>Lines 219 to 236: the user data directory, the AppArmor transition, the seccomp
  profiles under \<^verbatim>\<open>HAVE_SECCOMP\<close>, and the cookie variables.\<close>

definition main_policy :: "world \<Rightarrow> sc_invocation \<Rightarrow> string option \<Rightarrow> unit prog" where
  "main_policy w invo snap_context =
     nxt (call w E_setup_user_data)
     (nxt (call w (E_aa_change_onexec (security_tag invo)))
     (nxt (if have_seccomp w then
             nxt (call w (E_apply_seccomp_profile (security_tag invo)))
             (if seccomp_applied w then call w E_apply_global_seccomp else ret ())
           else ret ())
     (case snap_context of
        None \<Rightarrow> ret ()
      | Some c \<Rightarrow>
          bnd (setenv w ''SNAP_COOKIE'' c) (\<lambda>_.
          bnd (setenv w ''SNAP_CONTEXT'' c) (\<lambda>_. ret ())))))"

text \<open>Lines 238 to 246: the permanent drop and its check.\<close>

definition permanent_drop :: "world \<Rightarrow> uid_t \<Rightarrow> gid_t \<Rightarrow> unit prog" where
  "permanent_drop w real_uid real_gid =
     bnd geteuid (\<lambda>u.
     if u = 0 then
       bnd (setgid w real_gid) (\<lambda>r.
       if r \<noteq> 0 then die ''setgid failed''
       else
         bnd (setuid w real_uid) (\<lambda>r.
         if r \<noteq> 0 then die ''setuid failed''
         else
           bnd (if real_gid \<noteq> 0 then
                  bnd getuid (\<lambda>u. if u = 0 then ret True else bnd geteuid (\<lambda>e. ret (e = 0)))
                else ret False) (\<lambda>bad.
           if bad then die ''permanently dropping privs did not work''
           else
             bnd (if real_uid \<noteq> 0 then
                    bnd getgid (\<lambda>g. if g = 0 then ret True else bnd getegid (\<lambda>e. ret (e = 0)))
                  else ret False) (\<lambda>bad.
             if bad then die ''permanently dropping privs did not work'' else ret ()))))
     else ret ())"

text \<open>Lines 248 to 255: a successful \<^verbatim>\<open>execv\<close> does not return.\<close>

definition main_exec :: "world \<Rightarrow> sc_args \<Rightarrow> unit prog" where
  "main_exec w args =
     bnd (sys w (E_execv (args_executable args))) (\<lambda>r.
     if r = 0 then halt_with (Exec (args_executable args))
     else nxt (emit (E_perror ''execv failed'')) (halt_with (Return 1)))"

definition main :: "world \<Rightarrow> unit prog" where
  "main w =
     bnd (main_arguments w) (\<lambda>(args, invo).
     bnd (main_identity w) (\<lambda>c.
     bnd (main_cookie w invo) (\<lambda>snap_context.
     nxt (main_apparmor w)
     (nxt (main_enter w args invo c)
     (nxt (main_policy w invo snap_context)
     (nxt (permanent_drop w (ruid c) (rgid c))
     (main_exec w args)))))))"

text \<open>One launch: \<^verbatim>\<open>main\<close> from the process the world starts.\<close>

definition start :: "world \<Rightarrow> proc" where
  "start w = \<lparr>ids = init_ids w, env = init_env w, trace = []\<rparr>"

definition run :: "world \<Rightarrow> (halt + unit) \<times> proc" where
  "run w = main w (start w)"

definition outcome :: "world \<Rightarrow> halt + unit" where
  "outcome w = fst (run w)"

definition final :: "world \<Rightarrow> proc" where
  "final w = snd (run w)"

section \<open>Notions used to state and prove the properties\<close>

subsection \<open>Example launches\<close>

text \<open>A confined launch of an application by user 1000 through the setuid and setgid root
  binary, with no preserved namespace yet; the other examples vary it.\<close>

definition user_launch :: world where
  "user_launch =
     \<lparr>init_ids = \<lparr>ruid = 1000, euid = 0, suid = 0, rgid = 1000, egid = 0, sgid = 0\<rparr>,
      init_env = [''SNAP_INSTANCE_NAME'' \<mapsto> ''app'', ''PATH'' \<mapsto> ''/host/bin'',
                  ''TMPDIR'' \<mapsto> ''/host/tmp''],
      at_secure = True,
      caps_over_setuid = False,
      have_seccomp = True,
      fails = (\<lambda>_ _. False),
      parsed = Inr \<lparr>args_is_version_query = False, args_security_tag = ''snap.app.cmd'',
                     args_executable = ''/usr/lib/snapd/snap-exec'', args_base_snap = None,
                     args_is_classic_confinement = False\<rparr>,
      tag_verified = (\<lambda>_ _. True),
      is_hook_tag = (\<lambda>_. False),
      cookie = Some ''c00kie'',
      cookie_err = None,
      apparmor = \<lparr>is_confined = True, mode = SC_AA_ENFORCE\<rparr>,
      normal_mode = True,
      join_ns_ret = 3,
      join_user_ns_ret = 3,
      var_lib_mode = 493,
      glob_ret = 3,
      glob_paths = [],
      feature_on = (\<lambda>_. False),
      udev_init_ret = 0,
      seccomp_applied = True\<rparr>"

text \<open>The same launch with an empty environment block.\<close>

definition bare_launch :: world where
  "bare_launch = user_launch\<lparr>init_env := Map.empty\<rparr>"

subsection \<open>Kinds of invocation\<close>

definition version_query :: "world \<Rightarrow> bool" where
  "version_query w = (case parsed w of Inl _ \<Rightarrow> False | Inr a \<Rightarrow> args_is_version_query a)"

text \<open>The security tag of a launch, and the event of \<^verbatim>\<open>execv\<close>.\<close>

definition the_tag :: "world \<Rightarrow> string" where
  "the_tag w = (case parsed w of Inl _ \<Rightarrow> [] | Inr a \<Rightarrow> args_security_tag a)"

definition is_execv :: "event \<Rightarrow> bool" where
  "is_execv e = (case e of E_execv _ \<Rightarrow> True | _ \<Rightarrow> False)"

subsection \<open>The id system calls, in one equation\<close>

text \<open>The return value and the resulting ids of an id system call, so that a proof about
  the trace need not distinguish its two outcomes.\<close>

definition id_ret :: "world \<Rightarrow> event \<Rightarrow> (creds \<Rightarrow> bool) \<Rightarrow> proc \<Rightarrow> int" where
  "id_ret w e permitted s = (if fails w (trace s) e \<or> \<not> permitted (ids s) then - 1 else 0)"

definition id_ids ::
    "world \<Rightarrow> event \<Rightarrow> (creds \<Rightarrow> bool) \<Rightarrow> (creds \<Rightarrow> creds) \<Rightarrow> proc \<Rightarrow> creds" where
  "id_ids w e permitted effect s =
     (if fails w (trace s) e \<or> \<not> permitted (ids s) then ids s
      else effect (ids s))"

subsection \<open>Triples and frames\<close>

text \<open>\<open>hoare P m Q E\<close>: from a state in \<open>P\<close>, \<open>m\<close> returns \<open>x\<close> in a state in \<open>Q x\<close> or
  halts with \<open>h\<close> in a state in \<open>E h\<close>.\<close>

definition hoare ::
    "(proc \<Rightarrow> bool) \<Rightarrow> 'a prog \<Rightarrow> ('a \<Rightarrow> proc \<Rightarrow> bool) \<Rightarrow> (halt \<Rightarrow> proc \<Rightarrow> bool) \<Rightarrow> bool" where
  "hoare P m Q E = (\<forall>s. P s \<longrightarrow> (case m s of (Inl h, s') \<Rightarrow> E h s' | (Inr x, s') \<Rightarrow> Q x s'))"

text \<open>\<open>frame A f g s s'\<close>: \<open>s'\<close> extends the trace of \<open>s\<close> by events in \<open>A\<close> and agrees with
  \<open>s\<close> on the view \<open>f\<close> of the ids and the view \<open>g\<close> of the environment block.  A program
  \<open>stays\<close> in a frame when every run of it does.\<close>

definition frame ::
    "(event \<Rightarrow> bool) \<Rightarrow> (creds \<Rightarrow> 'x) \<Rightarrow> ((string \<rightharpoonup> string) \<Rightarrow> 'y) \<Rightarrow> proc \<Rightarrow> proc \<Rightarrow> bool" where
  "frame A f g s s' =
     ((\<exists>evs. trace s' = trace s @ evs \<and> list_all A evs) \<and>
      f (ids s') = f (ids s) \<and> g (env s') = g (env s))"

definition stays ::
    "(event \<Rightarrow> bool) \<Rightarrow> (creds \<Rightarrow> 'x) \<Rightarrow> ((string \<rightharpoonup> string) \<Rightarrow> 'y) \<Rightarrow> 'a prog \<Rightarrow> bool" where
  "stays A f g m = (\<forall>s. frame A f g s (snd (m s)))"


text \<open>The same launch by root itself: every id is 0.\<close>

definition root_launch :: world where
  "root_launch =
     user_launch\<lparr>init_ids := \<lparr>ruid = 0, euid = 0, suid = 0, rgid = 0, egid = 0, sgid = 0\<rparr>\<rparr>"

subsection \<open>C2: the three stages of privilege\<close>





definition is_setgid :: "event \<Rightarrow> bool" where
  "is_setgid e = (case e of E_setgid _ \<Rightarrow> True | _ \<Rightarrow> False)"



definition undropped :: "event list \<Rightarrow> bool" where
  "undropped t = list_all (\<lambda>e. \<not> is_setgid e) t"







subsection \<open>C9: the environment of the snap\<close>

text \<open>Two launches in which one \<^verbatim>\<open>setenv\<close> fails, as it does when memory is short: the
  one of line 387 for \<^verbatim>\<open>PATH\<close>, and the one of line 404 for \<^verbatim>\<open>TMPDIR\<close>.\<close>

definition path_fails_launch :: world where
  "path_fails_launch = user_launch\<lparr>fails := (\<lambda>_ e. e = E_setenv ''PATH'' snap_PATH)\<rparr>"

definition tmpdir_fails_launch :: world where
  "tmpdir_fails_launch = user_launch\<lparr>fails := (\<lambda>_ e. e = E_setenv ''TMPDIR'' ''/tmp'')\<rparr>"

definition is_setenv_or_die :: "event \<Rightarrow> bool" where
  "is_setenv_or_die e = (case e of E_setenv _ _ \<Rightarrow> True | E_die _ \<Rightarrow> True | _ \<Rightarrow> False)"


subsection \<open>C4: the per-snap lock\<close>

text \<open>The operations that the per-snap lock serialises: the join attempts, the two
  \<^verbatim>\<open>unshare\<close> calls, the population and the preservation of the per-snap and the
  per-user namespace, and the association with the freezer control group.\<close>

definition needs_snap_lock :: "event \<Rightarrow> bool" where
  "needs_snap_lock e = (case e of
      E_join_preserved_ns _ \<Rightarrow> True
    | E_unshare _ \<Rightarrow> True
    | E_populate_mount_ns \<Rightarrow> True
    | E_preserve_populated_mount_ns \<Rightarrow> True
    | E_join_preserved_per_user_ns _ \<Rightarrow> True
    | E_setup_user_mounts \<Rightarrow> True
    | E_preserve_populated_per_user_mount_ns \<Rightarrow> True
    | E_cgroup_freezer_join _ \<Rightarrow> True
    | _ \<Rightarrow> False)"

text \<open>Whether the per-snap lock is held after an event: \<^verbatim>\<open>sc_lock_snap\<close> takes it,
  \<^verbatim>\<open>sc_unlock\<close> of its descriptor releases it.\<close>

definition lock_step :: "bool \<Rightarrow> event \<Rightarrow> bool" where
  "lock_step held e = (case e of
      E_lock_snap _ \<Rightarrow> True
    | E_unlock l \<Rightarrow> held \<and> l \<noteq> Snap_lock
    | _ \<Rightarrow> held)"

text \<open>\<open>guarded held t\<close>: starting with the lock held or not, every operation of \<open>t\<close>
  that needs the lock is made while it is held.\<close>

fun guarded :: "bool \<Rightarrow> event list \<Rightarrow> bool" where
  "guarded held [] = True"
| "guarded held (e # es) = ((needs_snap_lock e \<longrightarrow> held) \<and> guarded (lock_step held e) es)"

definition is_join :: "event \<Rightarrow> bool" where
  "is_join e = (case e of E_join_preserved_ns _ \<Rightarrow> True | _ \<Rightarrow> False)"

definition is_freezer_join :: "event \<Rightarrow> bool" where
  "is_freezer_join e = (case e of E_cgroup_freezer_join _ \<Rightarrow> True | _ \<Rightarrow> False)"

definition release_late :: "event list \<Rightarrow> bool" where
  "release_late t =
     (E_unlock Snap_lock \<in> set t \<longrightarrow> list_ex is_join t \<and> list_ex is_freezer_join t)"

definition lock_free :: "event \<Rightarrow> bool" where
  "lock_free e = (\<not> needs_snap_lock e \<and> \<not> (case e of E_lock_snap _ \<Rightarrow> True | _ \<Rightarrow> False) \<and>
                  e \<noteq> E_unlock Snap_lock)"

definition lock_kept :: "event \<Rightarrow> bool" where
  "lock_kept e = (e \<noteq> E_unlock Snap_lock)"

definition lock_state :: "bool \<Rightarrow> bool \<Rightarrow> bool \<Rightarrow> event list \<Rightarrow> bool" where
  "lock_state h j z t =
     (guarded False t \<and> foldl lock_step False t = h \<and> release_late t \<and>
      (j \<longrightarrow> list_ex is_join t) \<and> (z \<longrightarrow> list_ex is_freezer_join t))"


text \<open>A launch that finds a preserved namespace to join, and one whose per-snap
  \<^verbatim>\<open>unshare\<close> fails.\<close>

definition joined_launch :: world where
  "joined_launch = user_launch\<lparr>join_ns_ret := 0, join_user_ns_ret := 0\<rparr>"

definition unshare_fails_launch :: world where
  "unshare_fails_launch = user_launch\<lparr>fails := (\<lambda>_ e. e = E_unshare Per_snap)\<rparr>"

subsection \<open>Properties of each step of a trace\<close>

text \<open>\<open>each_step ok pre t\<close>: every event of \<open>t\<close> is allowed by \<open>ok\<close> after the events
  before it, \<open>pre\<close> being those before \<open>t\<close>.  \<open>returned w pre e\<close>: the latest call
  was \<open>e\<close>, and it did not fail; \<open>failed w pre e\<close>: it was \<open>e\<close>, and it failed.\<close>

fun each_step :: "(event list \<Rightarrow> event \<Rightarrow> bool) \<Rightarrow> event list \<Rightarrow> event list \<Rightarrow> bool" where
  "each_step ok pre [] = True"
| "each_step ok pre (e # es) = (ok pre e \<and> each_step ok (pre @ [e]) es)"

definition returned :: "world \<Rightarrow> event list \<Rightarrow> event \<Rightarrow> bool" where
  "returned w pre e = (pre \<noteq> [] \<and> last pre = e \<and> \<not> fails w (butlast pre) e)"

definition failed :: "world \<Rightarrow> event list \<Rightarrow> event \<Rightarrow> bool" where
  "failed w pre e = (pre \<noteq> [] \<and> last pre = e \<and> fails w (butlast pre) e)"


definition unfailed :: "world \<Rightarrow> (event \<Rightarrow> bool) \<Rightarrow> event list \<Rightarrow> event \<Rightarrow> bool" where
  "unfailed w K pre e = (K e \<longrightarrow> \<not> fails w pre e)"

subsection \<open>C5: the construction of the per-snap namespace\<close>

text \<open>What may follow what: the per-snap \<^verbatim>\<open>unshare\<close> is the event after a join
  attempt that returned \<^verbatim>\<open>ESRCH\<close>, and no other; the population is the event after
  a successful \<^verbatim>\<open>unshare\<close>, and no other; the preservation is the event after a
  population that returned, and no other.  A failed \<^verbatim>\<open>unshare\<close> is followed by
  \<^verbatim>\<open>die\<close>, a failed population or preservation by nothing.\<close>

definition construction_rule :: "world \<Rightarrow> event list \<Rightarrow> event \<Rightarrow> bool" where
  "construction_rule w pre e =
     ((e = E_unshare Per_snap) = returned w pre (E_join_preserved_ns ESRCH) \<and>
      (e = E_populate_mount_ns) = returned w pre (E_unshare Per_snap) \<and>
      (e = E_preserve_populated_mount_ns) = returned w pre E_populate_mount_ns \<and>
      (failed w pre (E_unshare Per_snap) \<longrightarrow> e = E_die ''cannot unshare the mount namespace'') \<and>
      \<not> failed w pre E_populate_mount_ns \<and>
      \<not> failed w pre E_preserve_populated_mount_ns)"

definition construction_settled :: "world \<Rightarrow> event list \<Rightarrow> bool" where
  "construction_settled w pre =
     (\<not> returned w pre (E_join_preserved_ns ESRCH) \<and>
      \<not> returned w pre (E_unshare Per_snap) \<and>
      \<not> returned w pre E_populate_mount_ns \<and>
      \<not> failed w pre (E_unshare Per_snap) \<and>
      \<not> failed w pre E_populate_mount_ns \<and>
      \<not> failed w pre E_preserve_populated_mount_ns)"

definition construction_free :: "event \<Rightarrow> bool" where
  "construction_free e =
     (case e of E_join_preserved_ns _ \<Rightarrow> False | E_unshare s \<Rightarrow> s \<noteq> Per_snap
      | E_populate_mount_ns \<Rightarrow> False | E_preserve_populated_mount_ns \<Rightarrow> False | _ \<Rightarrow> True)"

definition is_construction :: "event \<Rightarrow> bool" where
  "is_construction e =
     (e = E_unshare Per_snap \<or> e = E_populate_mount_ns \<or> e = E_preserve_populated_mount_ns)"

definition construction_pending :: "world \<Rightarrow> event list \<Rightarrow> bool" where
  "construction_pending w pre =
     (returned w pre (E_join_preserved_ns ESRCH) \<or>
      returned w pre (E_unshare Per_snap) \<or>
      returned w pre E_populate_mount_ns \<or>
      failed w pre (E_unshare Per_snap))"

definition constructed :: "world \<Rightarrow> event list \<Rightarrow> bool" where
  "constructed w t =
     (each_step (construction_rule w) [] t \<and> construction_settled w t \<and>
      each_step (unfailed w is_construction) [] t)"


subsection \<open>C6: the per-user mount namespace\<close>

text \<open>A launch with the per-user feature switched on.\<close>

definition flag_launch :: world where
  "flag_launch = user_launch\<lparr>feature_on := (\<lambda>_. True)\<rparr>"


text \<open>The operations of lines 338 to 360, and what may follow what: they are made only
  for a real user id other than 0; the per-user \<^verbatim>\<open>unshare\<close> is the event after a
  per-user join that returned \<^verbatim>\<open>ESRCH\<close>, and no other;
  \<^verbatim>\<open>sc_setup_user_mounts\<close> is the event after that \<^verbatim>\<open>unshare\<close> succeeded, the
  query of the feature flag the event after the mounts were set up, and the preservation
  the event after the query, when the flag is on, and no other.\<close>

definition is_per_user :: "event \<Rightarrow> bool" where
  "is_per_user e = (case e of E_join_preserved_per_user_ns _ \<Rightarrow> True
      | E_unshare s \<Rightarrow> s = Per_user | E_setup_user_mounts \<Rightarrow> True
      | E_feature_enabled _ \<Rightarrow> True
      | E_preserve_populated_per_user_mount_ns \<Rightarrow> True | _ \<Rightarrow> False)"

definition per_user_rule :: "world \<Rightarrow> event list \<Rightarrow> event \<Rightarrow> bool" where
  "per_user_rule w pre e =
     ((is_per_user e \<longrightarrow> ruid (init_ids w) \<noteq> 0) \<and>
      (e = E_unshare Per_user) = returned w pre (E_join_preserved_per_user_ns ESRCH) \<and>
      (e = E_setup_user_mounts) = returned w pre (E_unshare Per_user) \<and>
      (e = E_feature_enabled SC_PER_USER_MOUNT_NAMESPACE) = returned w pre E_setup_user_mounts \<and>
      (e = E_preserve_populated_per_user_mount_ns) =
        (returned w pre (E_feature_enabled SC_PER_USER_MOUNT_NAMESPACE) \<and>
         feature_on w SC_PER_USER_MOUNT_NAMESPACE))"

definition per_user_settled :: "world \<Rightarrow> event list \<Rightarrow> bool" where
  "per_user_settled w pre =
     (\<not> returned w pre (E_join_preserved_per_user_ns ESRCH) \<and>
      \<not> returned w pre (E_unshare Per_user) \<and>
      \<not> returned w pre E_setup_user_mounts \<and>
      \<not> (returned w pre (E_feature_enabled SC_PER_USER_MOUNT_NAMESPACE) \<and>
         feature_on w SC_PER_USER_MOUNT_NAMESPACE))"

definition per_user_free :: "event \<Rightarrow> bool" where
  "per_user_free e = (\<not> is_per_user e)"

definition per_user_done :: "world \<Rightarrow> event list \<Rightarrow> bool" where
  "per_user_done w t = (each_step (per_user_rule w) [] t \<and> per_user_settled w t)"


subsection \<open>C10: the cookie\<close>

text \<open>A launch of a hook whose environment already has a cookie, and a launch for which
  snapd has no cookie and reports an error.\<close>

definition hook_launch :: world where
  "hook_launch = user_launch\<lparr>is_hook_tag := (\<lambda>_. True),
     init_env := (init_env user_launch)(''SNAP_COOKIE'' \<mapsto> ''h00k'')\<rparr>"

definition tokenless_launch :: world where
  "tokenless_launch = user_launch\<lparr>cookie := None, cookie_err := Some ''cannot connect to snapd''\<rparr>"

text \<open>The launch of the user in which \<^verbatim>\<open>setenv\<close> fails for \<^verbatim>\<open>SNAP_COOKIE\<close>, as it
  does when memory is short.\<close>

definition cookie_fails_launch :: world where
  "cookie_fails_launch =
     user_launch\<lparr>fails := (\<lambda>_ e. e = E_setenv ''SNAP_COOKIE'' ''c00kie'')\<rparr>"

text \<open>The token that \<^verbatim>\<open>main\<close> holds in \<^verbatim>\<open>snap_context\<close> after line 179: none
  for a hook, else what snapd gave.\<close>

definition token :: "world \<Rightarrow> string option" where
  "token w = (if is_hook_tag w (the_tag w) then None else cookie w)"

definition is_cookie_get :: "event \<Rightarrow> bool" where
  "is_cookie_get e = (case e of E_cookie_get_from_snapd _ \<Rightarrow> True | _ \<Rightarrow> False)"

definition is_cookie_set :: "event \<Rightarrow> bool" where
  "is_cookie_set e = (case e of E_setenv n _ \<Rightarrow> n = ''SNAP_COOKIE'' \<or> n = ''SNAP_CONTEXT'' | _ \<Rightarrow> False)"

definition is_error :: "event \<Rightarrow> bool" where
  "is_error e = (case e of E_error _ \<Rightarrow> True | _ \<Rightarrow> False)"

definition is_hook_query :: "event \<Rightarrow> bool" where
  "is_hook_query e = (case e of E_is_hook_security_tag _ \<Rightarrow> True | _ \<Rightarrow> False)"

text \<open>\<open>cookie_rule\<close>: the cookie is asked for only when the tag is not that of a hook,
  and a cookie variable is set only to the token.  \<open>fetch_due\<close>: the latest call asked
  whether the tag is that of a hook, and returned that it is not; \<open>report_due\<close>: the
  latest call was the fetch, and it returned with an error.  \<open>report_rule\<close>: the cookie is
  fetched exactly when the fetch is due; \<^verbatim>\<open>error\<close> is called exactly when the report
  is due, with the message of snapd; and the call after the report is
  \<^verbatim>\<open>sc_init_apparmor_support\<close>.  \<open>cookie_written\<close>: the two variables were set, in
  this order and once, and each holds the token unless its \<^verbatim>\<open>setenv\<close> failed.\<close>

definition cookie_rule :: "world \<Rightarrow> event \<Rightarrow> bool" where
  "cookie_rule w e =
     ((is_cookie_get e \<longrightarrow> \<not> is_hook_tag w (the_tag w)) \<and>
      (is_cookie_set e \<longrightarrow>
         (case token w of None \<Rightarrow> False
          | Some v \<Rightarrow> e = E_setenv ''SNAP_COOKIE'' v \<or> e = E_setenv ''SNAP_CONTEXT'' v)))"

definition answered :: "world \<Rightarrow> event list \<Rightarrow> bool" where
  "answered w t = (t \<noteq> [] \<and> \<not> fails w (butlast t) (last t))"

definition fetch_due :: "world \<Rightarrow> event list \<Rightarrow> bool" where
  "fetch_due w t = (answered w t \<and> is_hook_query (last t) \<and> \<not> is_hook_tag w (the_tag w))"

definition report_due :: "world \<Rightarrow> event list \<Rightarrow> bool" where
  "report_due w t = (answered w t \<and> is_cookie_get (last t) \<and> cookie_err w \<noteq> None)"

definition reported_last :: "event list \<Rightarrow> bool" where
  "reported_last t = (t \<noteq> [] \<and> is_error (last t))"

definition report_rule :: "world \<Rightarrow> event list \<Rightarrow> event \<Rightarrow> bool" where
  "report_rule w pre e =
     (is_cookie_get e = fetch_due w pre \<and>
      is_error e = report_due w pre \<and>
      (is_error e \<longrightarrow> cookie_err w = Some (case e of E_error m \<Rightarrow> m | _ \<Rightarrow> [])) \<and>
      (reported_last pre \<longrightarrow> e = E_init_apparmor_support))"

definition report_settled :: "world \<Rightarrow> event list \<Rightarrow> bool" where
  "report_settled w t = (\<not> fetch_due w t \<and> \<not> report_due w t \<and> \<not> reported_last t)"

definition cookie_env :: "(string \<rightharpoonup> string) \<Rightarrow> string option \<times> string option" where
  "cookie_env en = (en ''SNAP_COOKIE'', en ''SNAP_CONTEXT'')"

definition cookie_written :: "world \<Rightarrow> string \<Rightarrow> proc \<Rightarrow> bool" where
  "cookie_written w v s =
     (filter is_cookie_set (trace s) = [E_setenv ''SNAP_COOKIE'' v, E_setenv ''SNAP_CONTEXT'' v] \<and>
      (each_step (unfailed w (\<lambda>e. e = E_setenv ''SNAP_COOKIE'' v)) [] (trace s) \<longrightarrow>
         env s ''SNAP_COOKIE'' = Some v) \<and>
      (each_step (unfailed w (\<lambda>e. e = E_setenv ''SNAP_CONTEXT'' v)) [] (trace s) \<longrightarrow>
         env s ''SNAP_CONTEXT'' = Some v))"

definition cookie_unset :: "proc \<Rightarrow> bool" where
  "cookie_unset s = (filter is_cookie_set (trace s) = [] \<and> \<not> list_ex is_execv (trace s))"

definition cookie_quiet :: "event \<Rightarrow> bool" where
  "cookie_quiet e =
     (\<not> is_hook_query e \<and> \<not> is_cookie_get e \<and> \<not> is_cookie_set e \<and> \<not> is_error e)"

definition report_quiet :: "event \<Rightarrow> bool" where
  "report_quiet e = (\<not> is_hook_query e \<and> \<not> is_cookie_get e \<and> \<not> is_error e)"

definition unexec :: "event \<Rightarrow> bool" where
  "unexec e = (\<not> is_cookie_set e \<and> \<not> is_execv e)"

definition uncookied :: "event \<Rightarrow> bool" where
  "uncookied e = (\<not> is_cookie_set e)"

definition cookie_kept :: "world \<Rightarrow> proc \<Rightarrow> bool" where
  "cookie_kept w s =
     (list_all (cookie_rule w) (trace s) \<and>
      (token w = None \<longrightarrow> cookie_env (env s) = cookie_env (init_env w)))"

definition reported :: "world \<Rightarrow> proc \<Rightarrow> bool" where
  "reported w s = (each_step (report_rule w) [] (trace s) \<and> report_settled w (trace s))"

definition report_pending :: "world \<Rightarrow> proc \<Rightarrow> bool" where
  "report_pending w s =
     (each_step (report_rule w) [] (trace s) \<and>
      \<not> fetch_due w (trace s) \<and> \<not> report_due w (trace s))"


subsection \<open>C7: the refusal to run unconfined\<close>

text \<open>The launch of the user by an unconfined \<^verbatim>\<open>snap-confine\<close> where AppArmor is in
  force, and the same asked for its version.\<close>

definition unconfined_launch :: world where
  "unconfined_launch = user_launch\<lparr>apparmor := \<lparr>is_confined = False, mode = SC_AA_ENFORCE\<rparr>\<rparr>"

definition unconfined_version_query :: world where
  "unconfined_version_query = unconfined_launch\<lparr>parsed :=
     Inr \<lparr>args_is_version_query = True, args_security_tag = [], args_executable = [],
          args_base_snap = None, args_is_classic_confinement = False\<rparr>\<rparr>"

text \<open>The calls of lines 115 to 192: the arguments, the environment, the ids and the early
  drop of the effective group, the cookie, the state of AppArmor, and \<^verbatim>\<open>die\<close>.  No
  lock, no namespace, no control group, no profile and no \<^verbatim>\<open>execv\<close> is among them.\<close>

definition preliminary :: "event \<Rightarrow> bool" where
  "preliminary e = (case e of
       E_parse_args \<Rightarrow> True | E_printf_version \<Rightarrow> True | E_getenv _ \<Rightarrow> True
     | E_instance_name_validate _ \<Rightarrow> True | E_verify_security_tag _ _ \<Rightarrow> True
     | E_snap_name_validate _ \<Rightarrow> True | E_getresuid \<Rightarrow> True | E_getresgid \<Rightarrow> True
     | E_setegid _ \<Rightarrow> True | E_getuid \<Rightarrow> True | E_geteuid \<Rightarrow> True
     | E_secure_getenv _ \<Rightarrow> True | E_is_hook_security_tag _ \<Rightarrow> True
     | E_cookie_get_from_snapd _ \<Rightarrow> True | E_error _ \<Rightarrow> True
     | E_init_apparmor_support \<Rightarrow> True | E_die _ \<Rightarrow> True | _ \<Rightarrow> False)"

definition elevated :: "proc \<Rightarrow> bool" where
  "elevated s = (list_all preliminary (trace s) \<and> ruid (ids s) \<noteq> 0 \<and> euid (ids s) = 0)"

definition refused :: "halt \<Rightarrow> proc \<Rightarrow> bool" where
  "refused h s = (h = Fatal \<and> list_all preliminary (trace s))"


subsection \<open>C1: the permanent drop\<close>

text \<open>\<open>dropped_to c0 c\<close>: the six ids \<open>c\<close> are the real ids of \<open>c0\<close>, which is where
  \<^verbatim>\<open>setgid(real_gid)\<close> and \<^verbatim>\<open>setuid(real_uid)\<close> of lines 241 and 242 bring a
  process with effective user id 0.  \<open>undropping\<close>: an event that is neither of these
  calls.  \<open>kept_ids\<close>: the real and the saved ids, which no other call changes.\<close>

definition is_setuid :: "event \<Rightarrow> bool" where
  "is_setuid e = (case e of E_setuid _ \<Rightarrow> True | _ \<Rightarrow> False)"

definition dropped_to :: "creds \<Rightarrow> creds \<Rightarrow> bool" where
  "dropped_to c0 c =
     (c = \<lparr>ruid = ruid c0, euid = ruid c0, suid = ruid c0,
           rgid = rgid c0, egid = rgid c0, sgid = rgid c0\<rparr>)"

definition undropping :: "event \<Rightarrow> bool" where
  "undropping e = (\<not> is_setgid e \<and> \<not> is_setuid e)"

definition kept_ids :: "creds \<Rightarrow> uid_t \<times> gid_t \<times> uid_t \<times> gid_t" where
  "kept_ids c = (ruid c, rgid c, suid c, sgid c)"

definition no_drop :: "world \<Rightarrow> proc \<Rightarrow> bool" where
  "no_drop w s =
     (list_all undropping (trace s) \<and> kept_ids (ids s) = kept_ids (init_ids w))"

definition lowered_user :: "world \<Rightarrow> proc \<Rightarrow> bool" where
  "lowered_user w s = (no_drop w s \<and> euid (ids s) \<noteq> 0)"


subsection \<open>C3: the calls that change an id\<close>

















section \<open>Properties\<close>

subsection \<open>Unfolding and evaluation\<close>

named_theorems prog_defs
named_theorems phase_defs
named_theorems stays_intros

lemmas [prog_defs] = ret_def bnd_def nxt_def halt_with_def emit_def die_def call_def sys_def
  getenv_def secure_getenv_def setenv_def getuid_def geteuid_def getgid_def getegid_def
  getresuid_getresgid_def id_call_def setegid_def seteuid_def setgid_def setuid_def

lemmas [phase_defs] = sc_maybe_fixup_permissions_def sc_maybe_fixup_udev_def enter_global_init_def
  enter_snap_lock_def enter_snap_namespace_def enter_user_namespace_def enter_freezer_def
  enter_release_def enter_environment_def
  enter_devices_def enter_non_classic_execution_environment_def
  enter_classic_execution_environment_def main_arguments_def main_identity_def main_cookie_def
  main_apparmor_def temporary_drop_def main_enter_def main_policy_def permanent_drop_def
  main_exec_def

lemma id_call_eq:
  "id_call w e p k s =
     (Inr (id_ret w e p s), s\<lparr>ids := id_ids w e p k s, trace := trace s @ [e]\<rparr>)"
  by (simp add: id_call_def id_ret_def id_ids_def)

lemmas trace_defs = ret_def bnd_def nxt_def halt_with_def emit_def die_def call_def sys_def
  getenv_def secure_getenv_def setenv_def getuid_def geteuid_def getgid_def getegid_def
  getresuid_getresgid_def id_call_eq setegid_def seteuid_def setgid_def setuid_def

lemmas eval_defs = final_def outcome_def run_def start_def main_def phase_defs prog_defs
  ESRCH_def GLOB_NOMATCH_def snap_PATH_def tmpd_def version_query_def

subsection \<open>Frames\<close>

lemma frame_refl: "frame A f g s s"
  by (simp add: frame_def)

lemma frame_trans: "frame A f g s s' \<Longrightarrow> frame A f g s' s'' \<Longrightarrow> frame A f g s s''"
  unfolding frame_def
  by (metis (no_types, lifting) append.assoc list_all_append)

lemma frame_mono: "frame A f g s s' \<Longrightarrow> (\<And>e. A e \<Longrightarrow> B e) \<Longrightarrow> frame B f g s s'"
  unfolding frame_def by (meson list.pred_mono_strong)

lemma stays_ret [stays_intros]: "stays A f g (ret x)"
  by (simp add: stays_def ret_def frame_refl)

lemma stays_halt_with [stays_intros]: "stays A f g (halt_with h)"
  by (simp add: stays_def halt_with_def frame_refl)

lemma stays_bnd [stays_intros]:
  assumes "stays A f g m" and "\<And>x. stays A f g (k x)"
  shows "stays A f g (bnd m k)"
  unfolding stays_def
proof
  fix s
  have 1: "frame A f g s (snd (m s))"
    using assms(1) by (simp add: stays_def)
  show "frame A f g s (snd (bnd m k s))"
  proof (cases "m s")
    case (Pair r s')
    show ?thesis
    proof (cases r)
      case (Inl h)
      with Pair 1 show ?thesis by (simp add: bnd_def)
    next
      case (Inr x)
      have "frame A f g s' (snd (k x s'))"
        using assms(2) by (simp add: stays_def)
      with Pair Inr 1 show ?thesis
        by (auto simp: bnd_def intro: frame_trans)
    qed
  qed
qed

lemma stays_nxt [stays_intros]: "stays A f g m \<Longrightarrow> stays A f g n \<Longrightarrow> stays A f g (nxt m n)"
  by (simp add: nxt_def stays_bnd)

lemma stays_emit [stays_intros]: "A e \<Longrightarrow> stays A f g (emit e)"
  by (simp add: stays_def frame_def emit_def)

lemma stays_die [stays_intros]: "A (E_die msg) \<Longrightarrow> stays A f g (die msg)"
  by (simp add: die_def stays_intros)

lemma stays_call [stays_intros]: "A e \<Longrightarrow> stays A f g (call w e)"
  by (simp add: stays_def frame_def call_def)

lemma stays_calls [stays_intros]: "list_all A es \<Longrightarrow> stays A f g (calls w es)"
  by (induction es) (auto intro: stays_intros)

lemma stays_sys [stays_intros]: "A e \<Longrightarrow> stays A f g (sys w e)"
  by (simp add: stays_def frame_def sys_def)

lemma stays_getenv [stays_intros]: "A (E_getenv n) \<Longrightarrow> stays A f g (getenv n)"
  by (simp add: stays_def frame_def getenv_def)

lemma stays_secure_getenv [stays_intros]:
  "A (E_secure_getenv n) \<Longrightarrow> stays A f g (secure_getenv w n)"
  by (simp add: stays_def frame_def secure_getenv_def)

lemma stays_setenv [stays_intros]:
  "A (E_setenv n v) \<Longrightarrow> (\<And>en. g (en(n \<mapsto> v)) = g en) \<Longrightarrow> stays A f g (setenv w n v)"
  by (simp add: stays_def frame_def setenv_def)

lemma stays_getuid [stays_intros]: "A E_getuid \<Longrightarrow> stays A f g getuid"
  by (simp add: stays_def frame_def getuid_def)

lemma stays_geteuid [stays_intros]: "A E_geteuid \<Longrightarrow> stays A f g geteuid"
  by (simp add: stays_def frame_def geteuid_def)

lemma stays_getgid [stays_intros]: "A E_getgid \<Longrightarrow> stays A f g getgid"
  by (simp add: stays_def frame_def getgid_def)

lemma stays_getegid [stays_intros]: "A E_getegid \<Longrightarrow> stays A f g getegid"
  by (simp add: stays_def frame_def getegid_def)

lemma stays_getres [stays_intros]:
  "A E_getresuid \<Longrightarrow> A E_getresgid \<Longrightarrow> stays A f g getresuid_getresgid"
  by (simp add: stays_def frame_def getresuid_getresgid_def)

lemma stays_id_call:
  "A e \<Longrightarrow> (\<And>c. p c \<Longrightarrow> f (k c) = f c) \<Longrightarrow> stays A f g (id_call w e p k)"
  by (simp add: stays_def frame_def id_call_def)

lemma stays_setegid [stays_intros]:
  "A (E_setegid x) \<Longrightarrow> (\<And>c. f (c\<lparr>egid := x\<rparr>) = f c) \<Longrightarrow> stays A f g (setegid w x)"
  by (simp add: setegid_def stays_id_call)

lemma stays_seteuid [stays_intros]:
  "A (E_seteuid x) \<Longrightarrow> (\<And>c. f (c\<lparr>euid := x\<rparr>) = f c) \<Longrightarrow> stays A f g (seteuid w x)"
  by (simp add: seteuid_def stays_id_call)

lemma stays_setgid [stays_intros]:
  "A (E_setgid x) \<Longrightarrow> (\<And>c. f (c\<lparr>egid := x\<rparr>) = f c) \<Longrightarrow>
   (\<And>c. f (c\<lparr>rgid := x, egid := x, sgid := x\<rparr>) = f c) \<Longrightarrow> stays A f g (setgid w x)"
  by (simp add: setgid_def stays_id_call)

lemma stays_setuid [stays_intros]:
  "A (E_setuid x) \<Longrightarrow> (\<And>c. f (c\<lparr>euid := x\<rparr>) = f c) \<Longrightarrow>
   (\<And>c. f (c\<lparr>ruid := x, euid := x, suid := x\<rparr>) = f c) \<Longrightarrow> stays A f g (setuid w x)"
  by (simp add: setuid_def stays_id_call)

lemma stays_if [stays_intros]:
  "(c \<Longrightarrow> stays A f g m) \<Longrightarrow> (\<not> c \<Longrightarrow> stays A f g n) \<Longrightarrow> stays A f g (if c then m else n)"
  by simp

lemma stays_case_option [stays_intros]:
  "(x = None \<Longrightarrow> stays A f g m) \<Longrightarrow> (\<And>y. x = Some y \<Longrightarrow> stays A f g (k y)) \<Longrightarrow>
   stays A f g (case x of None \<Rightarrow> m | Some y \<Rightarrow> k y)"
  by (cases x) auto

lemma stays_case_sum [stays_intros]:
  "(\<And>y. x = Inl y \<Longrightarrow> stays A f g (k y)) \<Longrightarrow> (\<And>y. x = Inr y \<Longrightarrow> stays A f g (l y)) \<Longrightarrow>
   stays A f g (case x of Inl y \<Rightarrow> k y | Inr y \<Rightarrow> l y)"
  by (cases x) auto

lemma stays_unlink_all [stays_intros]:
  "(\<And>p. A (E_unlink p)) \<Longrightarrow> stays A f g (unlink_all ps)"
  by (induction ps) (auto intro: stays_intros)

lemma stays_set_tmpdirs [stays_intros]:
  "(\<And>v. v \<in> set vs \<Longrightarrow> A (E_setenv v ''/tmp'')) \<Longrightarrow>
   (\<And>v en. v \<in> set vs \<Longrightarrow> g (en(v \<mapsto> ''/tmp'')) = g en) \<Longrightarrow>
   (\<And>m. A (E_die m)) \<Longrightarrow> stays A f g (set_tmpdirs w vs)"
  by (induction vs) (auto intro!: stays_intros)

lemma stays_mono: "stays A f g m \<Longrightarrow> (\<And>e. A e \<Longrightarrow> B e) \<Longrightarrow> stays B f g m"
  unfolding stays_def by (blast intro: frame_mono)

subsection \<open>Triples\<close>

lemma hoare_bnd:
  "hoare P m R E \<Longrightarrow> (\<And>x. hoare (R x) (k x) Q E) \<Longrightarrow> hoare P (bnd m k) Q E"
  unfolding hoare_def bnd_def by (fastforce split: prod.splits sum.splits)

lemma hoare_nxt:
  "hoare P m (\<lambda>_. R) E \<Longrightarrow> hoare R n Q E \<Longrightarrow> hoare P (nxt m n) Q E"
  unfolding nxt_def by (rule hoare_bnd)

lemma hoare_weaken:
  "hoare P' m Q' E' \<Longrightarrow> (\<And>s. P s \<Longrightarrow> P' s) \<Longrightarrow> (\<And>x s. Q' x s \<Longrightarrow> Q x s) \<Longrightarrow>
   (\<And>h s. E' h s \<Longrightarrow> E h s) \<Longrightarrow> hoare P m Q E"
  unfolding hoare_def by (fastforce split: prod.splits sum.splits)


lemma hoare_run:
  assumes "hoare P (main w) Q E" and "P (start w)"
  shows "case outcome w of Inl h \<Rightarrow> E h (final w) | Inr x \<Rightarrow> Q x (final w)"
  using assms unfolding hoare_def outcome_def final_def run_def
  by (auto split: prod.splits sum.splits)

lemma main_chain:
  assumes "hoare Pa (main_arguments w) (\<lambda>(args, invo). Pb args invo) E"
    and "\<And>args invo. hoare (Pb args invo) (main_identity w) (Pc args invo) E"
    and "\<And>args invo c. hoare (Pc args invo c) (main_cookie w invo) (Pd args invo c) E"
    and "\<And>args invo c x. hoare (Pd args invo c x) (main_apparmor w) (\<lambda>_. Pe args invo c x) E"
    and "\<And>args invo c x. hoare (Pe args invo c x) (main_enter w args invo c) (\<lambda>_. Pf args invo c x) E"
    and "\<And>args invo c x. hoare (Pf args invo c x) (main_policy w invo x) (\<lambda>_. Pg args invo c x) E"
    and "\<And>args invo c x. hoare (Pg args invo c x) (permanent_drop w (ruid c) (rgid c)) (\<lambda>_. Ph args invo c x) E"
    and "\<And>args invo c x. hoare (Ph args invo c x) (main_exec w args) Q E"
  shows "hoare Pa (main w) Q E"
  unfolding main_def
  apply (rule hoare_bnd[OF assms(1)])
  apply (clarsimp)
  apply (rule hoare_bnd[OF assms(2)])
  apply (rule hoare_bnd[OF assms(3)])
  apply (rule hoare_nxt[OF assms(4)])
  apply (rule hoare_nxt[OF assms(5)])
  apply (rule hoare_nxt[OF assms(6)])
  apply (rule hoare_nxt[OF assms(7)])
  apply (rule assms(8))
  done


subsection \<open>More rules for triples\<close>

lemma hoare_conj:
  "hoare P m Q E \<Longrightarrow> hoare P' m Q' E' \<Longrightarrow>
   hoare (\<lambda>s. P s \<and> P' s) m (\<lambda>x s. Q x s \<and> Q' x s) (\<lambda>h s. E h s \<and> E' h s)"
  unfolding hoare_def by (fastforce split: prod.splits sum.splits)

lemma hoare_if:
  "(c \<Longrightarrow> hoare P m Q E) \<Longrightarrow> (\<not> c \<Longrightarrow> hoare P n Q E) \<Longrightarrow> hoare P (if c then m else n) Q E"
  by simp

lemma hoare_ret: "hoare (Q x) (ret x) Q E"
  by (simp add: hoare_def ret_def)

lemma hoare_False: "hoare (\<lambda>_. False) m Q E"
  by (simp add: hoare_def)

lemma hoare_frame:
  assumes "stays A f g m"
    and "\<And>s s' x. P s \<Longrightarrow> frame A f g s s' \<Longrightarrow> Q x s'"
    and "\<And>s s' h. P s \<Longrightarrow> frame A f g s s' \<Longrightarrow> E h s'"
  shows "hoare P m Q E"
  unfolding hoare_def
proof (intro allI impI)
  fix s assume "P s"
  moreover have "frame A f g s (snd (m s))"
    using assms(1) by (simp add: stays_def)
  ultimately show "case m s of (Inl h, s') \<Rightarrow> E h s' | (Inr x, s') \<Rightarrow> Q x s'"
    using assms(2,3) by (auto split: prod.splits sum.splits)
qed

lemma hoare_frame_with:
  assumes "stays A f g m" and "hoare V m W (\<lambda>_ _. True)"
    and "\<And>s. P s \<Longrightarrow> V s"
    and "\<And>s s' x. P s \<Longrightarrow> frame A f g s s' \<Longrightarrow> W x s' \<Longrightarrow> Q x s'"
    and "\<And>s s' h. P s \<Longrightarrow> frame A f g s s' \<Longrightarrow> E h s'"
  shows "hoare P m Q E"
  unfolding hoare_def
proof (intro allI impI)
  fix s assume p: "P s"
  have fr: "frame A f g s (snd (m s))"
    using assms(1) by (simp add: stays_def)
  have "case m s of (Inl h, s') \<Rightarrow> True | (Inr x, s') \<Rightarrow> W x s'"
    using assms(2) assms(3)[OF p] by (simp add: hoare_def)
  with p fr show "case m s of (Inl h, s') \<Rightarrow> E h s' | (Inr x, s') \<Rightarrow> Q x s'"
    using assms(4,5) by (auto split: prod.splits sum.splits)
qed

lemma hoare_True: "hoare P m (\<lambda>_ _. True) (\<lambda>_ _. True)"
  by (simp add: hoare_def split: prod.splits sum.splits)

lemma main_exec_halts: "hoare P (main_exec w args) (\<lambda>_ _. False) (\<lambda>_ _. True)"
  unfolding hoare_def main_exec_def
  by (auto simp: prog_defs split: prod.splits sum.splits if_splits)

lemma main_halts: "\<exists>h. outcome w = Inl h"
proof -
  have "hoare (\<lambda>_. True) (main w) (\<lambda>_ _. False) (\<lambda>_ _. True)"
    by (rule main_chain[where Pb="\<lambda>_ _ _. True" and Pc="\<lambda>_ _ _ _. True"
          and Pd="\<lambda>_ _ _ _ _. True" and Pe="\<lambda>_ _ _ _ _. True" and Pf="\<lambda>_ _ _ _ _. True"
          and Pg="\<lambda>_ _ _ _ _. True" and Ph="\<lambda>_ _ _ _ _. True"])
       (simp_all add: hoare_True main_exec_halts, simp add: hoare_def split: prod.splits sum.splits)
  from hoare_run[OF this] show ?thesis
    by (cases "outcome w") auto
qed

lemma hoare_final:
  assumes "hoare P (main w) Q E" and "P (start w)"
  shows "\<exists>h. outcome w = Inl h \<and> E h (final w)"
  using hoare_run[OF assms] main_halts[of w] by auto


subsection \<open>What the blocks of main return\<close>

lemma identity_value:
  "hoare (\<lambda>s. ids s = c0) (main_identity w) (\<lambda>c s. c = c0) (\<lambda>_ _. True)"
  unfolding hoare_def main_identity_def
  by (auto simp: prog_defs split: prod.splits sum.splits if_splits)

subsection \<open>The example launches, run\<close>

text \<open>The same without the value of \<open>snap_PATH\<close>.\<close>

lemmas launch_defs = final_def outcome_def run_def start_def main_def phase_defs prog_defs
  ESRCH_def GLOB_NOMATCH_def tmpd_def

lemma user_launch_run:
  "outcome user_launch = Inl (Exec ''/usr/lib/snapd/snap-exec'') \<and>
   ids (final user_launch) =
     \<lparr>ruid = 1000, euid = 1000, suid = 0, rgid = 1000, egid = 1000, sgid = 0\<rparr> \<and>
   trace (final user_launch) =
     [E_parse_args, E_getenv ''SNAP_INSTANCE_NAME'', E_instance_name_validate ''app'',
      E_verify_security_tag ''snap.app.cmd'' ''app'', E_snap_name_validate ''core'',
      E_getresuid, E_getresgid, E_setegid 1000, E_geteuid,
      E_is_hook_security_tag ''snap.app.cmd'', E_cookie_get_from_snapd ''app'',
      E_init_apparmor_support, E_geteuid,
      E_reassociate_with_pid1_mount_ns, E_lock_global, E_ensure_shared_snap_mount,
      E_initialize_mount_ns, E_unlock Global_lock, E_open_snap_update_ns,
      E_open_snap_discard_ns, E_lock_snap ''app'', E_open_mount_ns ''app'',
      E_should_use_normal_mode ''core'', E_fork_helper, E_join_preserved_ns 3,
      E_unshare Per_snap, E_populate_mount_ns, E_preserve_populated_mount_ns,
      E_stat ''/var/lib'', E_glob ''/run/udev/tags/snap_*/*nvidia*'',
      E_join_preserved_per_user_ns 3, E_unshare Per_user, E_setup_user_mounts,
      E_feature_enabled SC_PER_USER_MOUNT_NAMESPACE, E_getegid, E_setegid 0, E_getpid,
      E_cgroup_freezer_join ''app'', E_geteuid, E_setegid 1000, E_unlock Snap_lock,
      E_close_mount_ns, E_setenv ''PATH'' snap_PATH, E_setenv ''TMPDIR'' ''/tmp'',
      E_setenv ''TEMPDIR'' ''/tmp'', E_udev_init ''snap.app.cmd'',
      E_setup_devices_cgroup ''snap.app.cmd'', E_udev_cleanup,
      E_setegid 1000, E_seteuid 1000, E_geteuid, E_getegid,
      E_setup_user_data, E_aa_change_onexec ''snap.app.cmd'',
      E_apply_seccomp_profile ''snap.app.cmd'', E_apply_global_seccomp,
      E_setenv ''SNAP_COOKIE'' ''c00kie'', E_setenv ''SNAP_CONTEXT'' ''c00kie'',
      E_geteuid, E_execv ''/usr/lib/snapd/snap-exec'']"
  by (simp add: eval_defs user_launch_def)

lemma root_launch_run:
  "outcome root_launch = Inl (Exec ''/usr/lib/snapd/snap-exec'') \<and>
   ids (final root_launch) = \<lparr>ruid = 0, euid = 0, suid = 0, rgid = 0, egid = 0, sgid = 0\<rparr> \<and>
   trace (final root_launch) =
     [E_parse_args, E_getenv ''SNAP_INSTANCE_NAME'', E_instance_name_validate ''app'',
      E_verify_security_tag ''snap.app.cmd'' ''app'', E_snap_name_validate ''core'',
      E_getresuid, E_getresgid, E_geteuid,
      E_is_hook_security_tag ''snap.app.cmd'', E_cookie_get_from_snapd ''app'',
      E_init_apparmor_support, E_geteuid,
      E_reassociate_with_pid1_mount_ns, E_lock_global, E_ensure_shared_snap_mount,
      E_initialize_mount_ns, E_unlock Global_lock, E_open_snap_update_ns,
      E_open_snap_discard_ns, E_lock_snap ''app'', E_open_mount_ns ''app'',
      E_should_use_normal_mode ''core'', E_fork_helper, E_join_preserved_ns 3,
      E_unshare Per_snap, E_populate_mount_ns, E_preserve_populated_mount_ns,
      E_stat ''/var/lib'', E_glob ''/run/udev/tags/snap_*/*nvidia*'',
      E_getegid, E_getpid,
      E_cgroup_freezer_join ''app'', E_geteuid, E_unlock Snap_lock,
      E_close_mount_ns, E_setenv ''PATH'' snap_PATH, E_setenv ''TMPDIR'' ''/tmp'',
      E_setenv ''TEMPDIR'' ''/tmp'', E_udev_init ''snap.app.cmd'',
      E_setup_devices_cgroup ''snap.app.cmd'', E_udev_cleanup,
      E_setegid 0, E_seteuid 0,
      E_setup_user_data, E_aa_change_onexec ''snap.app.cmd'',
      E_apply_seccomp_profile ''snap.app.cmd'', E_apply_global_seccomp,
      E_setenv ''SNAP_COOKIE'' ''c00kie'', E_setenv ''SNAP_CONTEXT'' ''c00kie'',
      E_geteuid, E_setgid 0, E_setuid 0, E_execv ''/usr/lib/snapd/snap-exec'']"
  by (simp add: eval_defs root_launch_def user_launch_def)

subsection \<open>The blocks of the two functions, chained\<close>

lemma enter_chain:
  assumes "hoare Pa (enter_global_init w) (\<lambda>_. Pb) E"
    and "hoare Pb (enter_snap_lock w invo) (\<lambda>_. Pc) E"
    and "hoare Pc (enter_snap_namespace w) (\<lambda>_. Pd) E"
    and "hoare Pd (sc_maybe_fixup_permissions w) (\<lambda>_. Pe) E"
    and "hoare Pe (sc_maybe_fixup_udev w) (\<lambda>_. Pf) E"
    and "hoare Pf (enter_user_namespace w ru) (\<lambda>_. Pg) E"
    and "\<And>i. hoare Pg (enter_freezer w i rg sg) (\<lambda>_. Ph) E"
    and "hoare Ph (enter_release w) (\<lambda>_. Pi) E"
    and "hoare Pi (enter_environment w) (\<lambda>_. Pj) E"
    and "\<And>i. hoare Pj (enter_devices w i) Q E"
  shows "hoare Pa (enter_non_classic_execution_environment w invo ru rg sg) Q E"
  unfolding enter_non_classic_execution_environment_def
  apply (rule hoare_nxt[OF assms(1)])
  apply (rule hoare_bnd[OF assms(2)])
  apply (rule hoare_nxt[OF assms(3)])
  apply (rule hoare_nxt[OF assms(4)])
  apply (rule hoare_nxt[OF assms(5)])
  apply (rule hoare_nxt[OF assms(6)])
  apply (rule hoare_nxt[OF assms(7)])
  apply (rule hoare_nxt[OF assms(8)])
  apply (rule hoare_nxt[OF assms(9)])
  apply (rule assms(10))
  done

lemma main_enter_chain:
  assumes "hoare Pa geteuid (\<lambda>u s. Pb s \<and> (u = 0 \<longrightarrow> Pz s) \<and> (u \<noteq> 0 \<longrightarrow> Q () s)) E"
    and "hoare Pb (enter_non_classic_execution_environment w invo (ruid c) (rgid c) (sgid c))
           (\<lambda>_. Pc) E"
    and "\<And>s. Pb s \<Longrightarrow> Pz s \<Longrightarrow> Pc s"
    and "hoare Pc (temporary_drop w (ruid c) (rgid c)) Q E"
  shows "hoare Pa (main_enter w args invo c) Q E"
  unfolding main_enter_def enter_classic_execution_environment_def
  apply (rule hoare_bnd[OF assms(1)])
  apply (rule hoare_if)
   apply (rule hoare_nxt[where R=Pc])
    apply (rule hoare_if)
     apply (rule hoare_weaken[OF hoare_ret[where Q="\<lambda>_. Pc"]])
       apply (simp add: assms(3))
      apply simp
     apply simp
    apply (rule hoare_weaken[OF assms(2)]; simp)
   apply (rule hoare_weaken[OF assms(4)]; simp)
  apply (rule hoare_weaken[OF hoare_ret[where Q="Q"]]; simp)
  done


subsection \<open>What the blocks return, and main with it\<close>

lemma arguments_value:
  "hoare (\<lambda>s. ids s = c0) (main_arguments w)
     (\<lambda>(a, i) s. parsed w = Inr a \<and> \<not> args_is_version_query a \<and>
         security_tag i = args_security_tag a \<and> ids s = c0)
     (\<lambda>_ _. True)"
  unfolding hoare_def main_arguments_def
  by (auto simp: trace_defs split: sum.splits option.splits)

lemma cookie_value:
  "hoare (\<lambda>_. True) (main_cookie w i)
     (\<lambda>x _. x = (if is_hook_tag w (security_tag i) then None else cookie w)) (\<lambda>_ _. True)"
  unfolding hoare_def main_cookie_def
  by (auto simp: trace_defs split: sum.splits option.splits)

lemma hoare_with:
  assumes "hoare I m (\<lambda>_. J) E" and "hoare V m W (\<lambda>_ _. True)"
    and "\<And>s. P s \<Longrightarrow> I s \<and> V s"
    and "\<And>x s. J s \<Longrightarrow> W x s \<Longrightarrow> Q x s"
  shows "hoare P m Q E"
  using assms unfolding hoare_def
  by (fastforce split: prod.splits sum.splits)

lemma hoare_only:
  assumes "hoare I m (\<lambda>_. J) E" and "\<And>s. P s \<Longrightarrow> I s" and "\<And>x s. J s \<Longrightarrow> Q x s"
  shows "hoare P m Q E"
  using assms unfolding hoare_def
  by (fastforce split: prod.splits sum.splits)

lemma hoare_const: "(c \<Longrightarrow> hoare P m Q E) \<Longrightarrow> hoare (\<lambda>s. c \<and> P s) m Q E"
  by (auto simp: hoare_def)

lemma main_keeps:
  assumes arguments: "hoare I (main_arguments w) (\<lambda>_. I) E"
    and identity: "hoare I (main_identity w) (\<lambda>_. I) E"
    and cookie: "\<And>a i. parsed w = Inr a \<Longrightarrow> security_tag i = args_security_tag a \<Longrightarrow>
           hoare I (main_cookie w i) (\<lambda>_. I) E"
    and apparmor: "hoare I (main_apparmor w) (\<lambda>_. I) E"
    and geteuid: "hoare I geteuid (\<lambda>_. I) E"
    and global_init: "hoare I (enter_global_init w) (\<lambda>_. I) E"
    and snap_lock: "\<And>i. hoare I (enter_snap_lock w i) (\<lambda>_. I) E"
    and snap_namespace: "hoare I (enter_snap_namespace w) (\<lambda>_. I) E"
    and fixup_permissions: "hoare I (sc_maybe_fixup_permissions w) (\<lambda>_. I) E"
    and fixup_udev: "hoare I (sc_maybe_fixup_udev w) (\<lambda>_. I) E"
    and user_namespace: "hoare I (enter_user_namespace w (ruid c0)) (\<lambda>_. I) E"
    and freezer: "\<And>i. hoare I (enter_freezer w i (rgid c0) (sgid c0)) (\<lambda>_. I) E"
    and release: "hoare I (enter_release w) (\<lambda>_. I) E"
    and environment: "hoare I (enter_environment w) (\<lambda>_. I) E"
    and devices: "\<And>i. hoare I (enter_devices w i) (\<lambda>_. I) E"
    and temporary: "hoare I (temporary_drop w (ruid c0) (rgid c0)) (\<lambda>_. I) E"
    and policy: "\<And>a i. parsed w = Inr a \<Longrightarrow> security_tag i = args_security_tag a \<Longrightarrow>
           hoare I (main_policy w i (if is_hook_tag w (args_security_tag a) then None else cookie w))
             (\<lambda>_. I) E"
    and permanent: "hoare I (permanent_drop w (ruid c0) (rgid c0)) (\<lambda>_. I) E"
    and exec: "\<And>a. parsed w = Inr a \<Longrightarrow> hoare I (main_exec w a) Q E"
  shows "hoare (\<lambda>s. I s \<and> ids s = c0) (main w) Q E"
proof -
  have enter: "hoare I (enter_non_classic_execution_environment w i (ruid c0) (rgid c0) (sgid c0))
      (\<lambda>_. I) E" for i
    by (rule enter_chain[OF global_init snap_lock snap_namespace fixup_permissions fixup_udev
          user_namespace freezer release environment devices])
  have main_enter: "hoare I (main_enter w a i c0) (\<lambda>_. I) E" for a i
    by (rule main_enter_chain[where Pb=I and Pc=I and Pz="\<lambda>_. True", OF _ enter _ temporary])
       (rule hoare_only[OF geteuid]; simp)+
  show ?thesis
    apply (rule main_chain[where
          Pb="\<lambda>a i s. (parsed w = Inr a \<and> security_tag i = args_security_tag a) \<and> I s \<and> ids s = c0"
      and Pc="\<lambda>a i c s. (parsed w = Inr a \<and> security_tag i = args_security_tag a \<and> c = c0) \<and> I s"
      and Pd="\<lambda>a i c x s. (parsed w = Inr a \<and> security_tag i = args_security_tag a \<and> c = c0 \<and>
                x = (if is_hook_tag w (args_security_tag a) then None else cookie w)) \<and> I s"
      and Pe="\<lambda>a i c x s. (parsed w = Inr a \<and> security_tag i = args_security_tag a \<and> c = c0 \<and>
                x = (if is_hook_tag w (args_security_tag a) then None else cookie w)) \<and> I s"
      and Pf="\<lambda>a i c x s. (parsed w = Inr a \<and> security_tag i = args_security_tag a \<and> c = c0 \<and>
                x = (if is_hook_tag w (args_security_tag a) then None else cookie w)) \<and> I s"
      and Pg="\<lambda>a i c x s. (parsed w = Inr a \<and> security_tag i = args_security_tag a \<and> c = c0 \<and>
                x = (if is_hook_tag w (args_security_tag a) then None else cookie w)) \<and> I s"
      and Ph="\<lambda>a i c x s. (parsed w = Inr a \<and> security_tag i = args_security_tag a \<and> c = c0 \<and>
                x = (if is_hook_tag w (args_security_tag a) then None else cookie w)) \<and> I s"])
           apply (rule hoare_with[OF arguments arguments_value[of c0]])
            apply simp
           apply (simp split: prod.splits)
          apply (rule hoare_const)
          apply (rule hoare_with[OF identity identity_value[of c0]])
           apply simp
          apply simp
         apply (rule hoare_const)
         apply (rule hoare_with[OF cookie cookie_value])
            apply simp
           apply simp
          apply simp
         apply simp
        apply (rule hoare_const)
        apply (rule hoare_only[OF apparmor])
         apply simp
        apply simp
       apply (rule hoare_const, clarify)
       apply (rule hoare_only[OF main_enter])
        apply simp
       apply simp
      apply (rule hoare_const, clarify)
      apply (rule hoare_only[OF policy])
         apply simp
        apply simp
       apply simp
      apply simp
     apply (rule hoare_const, clarify)
     apply (rule hoare_only[OF permanent])
      apply simp
     apply simp
    apply (rule hoare_const, clarify)
    apply (rule exec)
    apply simp
    done
qed


lemma main_enter_keeps:
  assumes geteuid: "hoare I geteuid (\<lambda>_. I) E"
    and global_init: "hoare I (enter_global_init w) (\<lambda>_. I) E"
    and snap_lock: "\<And>i. hoare I (enter_snap_lock w i) (\<lambda>_. I) E"
    and snap_namespace: "hoare I (enter_snap_namespace w) (\<lambda>_. I) E"
    and fixup_permissions: "hoare I (sc_maybe_fixup_permissions w) (\<lambda>_. I) E"
    and fixup_udev: "hoare I (sc_maybe_fixup_udev w) (\<lambda>_. I) E"
    and user_namespace: "hoare I (enter_user_namespace w (ruid c0)) (\<lambda>_. I) E"
    and freezer: "\<And>i. hoare I (enter_freezer w i (rgid c0) (sgid c0)) (\<lambda>_. I) E"
    and release: "hoare I (enter_release w) (\<lambda>_. I) E"
    and environment: "hoare I (enter_environment w) (\<lambda>_. I) E"
    and devices: "\<And>i. hoare I (enter_devices w i) (\<lambda>_. I) E"
    and temporary: "hoare I (temporary_drop w (ruid c0) (rgid c0)) (\<lambda>_. I) E"
  shows "hoare I (main_enter w a i c0) (\<lambda>_. I) E"
proof -
  have enter: "hoare I (enter_non_classic_execution_environment w i (ruid c0) (rgid c0) (sgid c0))
      (\<lambda>_. I) E" for i
    by (rule enter_chain[OF global_init snap_lock snap_namespace fixup_permissions fixup_udev
          user_namespace freezer release environment devices])
  show ?thesis
    by (rule main_enter_chain[where Pb=I and Pc=I and Pz="\<lambda>_. True", OF _ enter _ temporary])
       (rule hoare_only[OF geteuid]; simp)+
qed

lemma main_values:
  assumes arguments: "hoare Ja (main_arguments w) (\<lambda>_. Jb) E"
    and identity: "hoare Jb (main_identity w) (\<lambda>_. Jc) E"
    and cookie: "\<And>a i. parsed w = Inr a \<Longrightarrow> security_tag i = args_security_tag a \<Longrightarrow>
           hoare Jc (main_cookie w i) (\<lambda>_. Jd) E"
    and apparmor: "hoare Jd (main_apparmor w) (\<lambda>_. Je) E"
    and enter: "\<And>a i. parsed w = Inr a \<Longrightarrow> security_tag i = args_security_tag a \<Longrightarrow>
           hoare Je (main_enter w a i c0) (\<lambda>_. Jf) E"
    and policy: "\<And>a i. parsed w = Inr a \<Longrightarrow> security_tag i = args_security_tag a \<Longrightarrow>
           hoare Jf (main_policy w i (if is_hook_tag w (args_security_tag a) then None else cookie w))
             (\<lambda>_. Jg) E"
    and permanent: "hoare Jg (permanent_drop w (ruid c0) (rgid c0)) (\<lambda>_. Jh) E"
    and exec: "\<And>a. parsed w = Inr a \<Longrightarrow> hoare Jh (main_exec w a) Q E"
  shows "hoare (\<lambda>s. Ja s \<and> ids s = c0) (main w) Q E"
  apply (rule main_chain[where
        Pb="\<lambda>a i s. (parsed w = Inr a \<and> security_tag i = args_security_tag a) \<and> Jb s \<and> ids s = c0"
    and Pc="\<lambda>a i c s. (parsed w = Inr a \<and> security_tag i = args_security_tag a \<and> c = c0) \<and> Jc s"
    and Pd="\<lambda>a i c x s. (parsed w = Inr a \<and> security_tag i = args_security_tag a \<and> c = c0 \<and>
              x = (if is_hook_tag w (args_security_tag a) then None else cookie w)) \<and> Jd s"
    and Pe="\<lambda>a i c x s. (parsed w = Inr a \<and> security_tag i = args_security_tag a \<and> c = c0 \<and>
              x = (if is_hook_tag w (args_security_tag a) then None else cookie w)) \<and> Je s"
    and Pf="\<lambda>a i c x s. (parsed w = Inr a \<and> security_tag i = args_security_tag a \<and> c = c0 \<and>
              x = (if is_hook_tag w (args_security_tag a) then None else cookie w)) \<and> Jf s"
    and Pg="\<lambda>a i c x s. (parsed w = Inr a \<and> security_tag i = args_security_tag a \<and> c = c0 \<and>
              x = (if is_hook_tag w (args_security_tag a) then None else cookie w)) \<and> Jg s"
    and Ph="\<lambda>a i c x s. (parsed w = Inr a \<and> security_tag i = args_security_tag a \<and> c = c0 \<and>
              x = (if is_hook_tag w (args_security_tag a) then None else cookie w)) \<and> Jh s"])
         apply (rule hoare_with[OF arguments arguments_value[of c0]])
          apply simp
         apply (simp split: prod.splits)
        apply (rule hoare_const)
        apply (rule hoare_with[OF identity identity_value[of c0]])
         apply simp
        apply simp
       apply (rule hoare_const)
       apply (rule hoare_with[OF cookie cookie_value])
          apply simp
         apply simp
        apply simp
       apply simp
      apply (rule hoare_const)
      apply (rule hoare_only[OF apparmor])
       apply simp
      apply simp
     apply (rule hoare_const, clarify)
     apply (rule hoare_only[OF enter])
        apply simp
       apply simp
      apply simp
     apply simp
    apply (rule hoare_const, clarify)
    apply (rule hoare_only[OF policy])
       apply simp
      apply simp
     apply simp
    apply simp
   apply (rule hoare_const, clarify)
   apply (rule hoare_only[OF permanent])
    apply simp
   apply simp
  apply (rule hoare_const, clarify)
  apply (rule exec)
  apply simp
  done



subsection \<open>Steps of a trace\<close>

lemma each_step_append:
  "each_step ok pre (xs @ ys) = (each_step ok pre xs \<and> each_step ok (pre @ xs) ys)"
  by (induction xs arbitrary: pre) auto

lemma each_step_frame:
  assumes step: "\<And>pre e. I pre \<Longrightarrow> A e \<Longrightarrow> ok pre e \<and> I (pre @ [e])"
  shows "each_step ok [] t \<Longrightarrow> I t \<Longrightarrow> list_all A evs \<Longrightarrow>
         each_step ok [] (t @ evs) \<and> I (t @ evs)"
proof (induction evs arbitrary: t)
  case Nil
  then show ?case by simp
next
  case (Cons e evs)
  from Cons.prems have e: "A e" and evs: "list_all A evs" by simp_all
  from step[OF Cons.prems(2) e] have ok: "ok t e" and i: "I (t @ [e])" by simp_all
  from Cons.prems(1) ok have "each_step ok [] (t @ [e])"
    by (simp add: each_step_append)
  from Cons.IH[OF this i evs] show ?case by simp
qed


subsection \<open>C3: a failed change is fatal, and the temporary drop is read back\<close>



























subsection \<open>C1: the permanent drop is made for root only\<close>

lemmas drop_defs = is_setgid_def is_setuid_def undropping_def kept_ids_def

lemma undropping_blocks:
  "stays undropping kept_ids (\<lambda>_. ()) (main_arguments w)"
  "stays undropping kept_ids (\<lambda>_. ()) (main_identity w)"
  "stays undropping kept_ids (\<lambda>_. ()) (main_cookie w i)"
  "stays undropping kept_ids (\<lambda>_. ()) (main_apparmor w)"
  "stays undropping kept_ids (\<lambda>_. ()) (enter_global_init w)"
  "stays undropping kept_ids (\<lambda>_. ()) (enter_snap_lock w i)"
  "stays undropping kept_ids (\<lambda>_. ()) (enter_snap_namespace w)"
  "stays undropping kept_ids (\<lambda>_. ()) (sc_maybe_fixup_permissions w)"
  "stays undropping kept_ids (\<lambda>_. ()) (sc_maybe_fixup_udev w)"
  "stays undropping kept_ids (\<lambda>_. ()) (enter_user_namespace w u)"
  "stays undropping kept_ids (\<lambda>_. ()) (enter_freezer w i g sg)"
  "stays undropping kept_ids (\<lambda>_. ()) (enter_release w)"
  "stays undropping kept_ids (\<lambda>_. ()) (enter_environment w)"
  "stays undropping kept_ids (\<lambda>_. ()) (enter_devices w i)"
  unfolding phase_defs tmpd_def
  by (intro stays_intros allI; fastforce simp: drop_defs)+

lemma undropping_whole:
  "stays undropping (\<lambda>c. c) (\<lambda>_. ()) (main_policy w i x)"
  "stays undropping (\<lambda>c. c) (\<lambda>_. ()) (main_exec w a)"
  unfolding phase_defs
  by (intro stays_intros allI; fastforce simp: drop_defs)+

lemma no_drop_frame:
  "no_drop w s \<Longrightarrow> frame undropping kept_ids g s s' \<Longrightarrow> no_drop w s'"
  by (auto simp: frame_def no_drop_def)

lemma lowered_user_frame:
  "lowered_user w s \<Longrightarrow> frame undropping (\<lambda>c. c) g s s' \<Longrightarrow> lowered_user w s'"
  by (auto simp: frame_def no_drop_def lowered_user_def)

lemma no_drop_block:
  assumes "stays undropping kept_ids g m"
  shows "hoare (no_drop w) m (\<lambda>_. no_drop w) (\<lambda>_. no_drop w)"
  by (rule hoare_frame[OF assms]) (blast intro: no_drop_frame)+

lemma lowered_user_block:
  assumes "stays undropping (\<lambda>c. c) g m"
  shows "hoare (lowered_user w) m (\<lambda>_. lowered_user w) (\<lambda>_. no_drop w)"
proof (rule hoare_frame[OF assms])
  fix s s' assume "lowered_user w s" "frame undropping (\<lambda>c. c) g s s'"
  then have "lowered_user w s'" by (rule lowered_user_frame)
  then show "lowered_user w s'" and "no_drop w s'"
    by (simp_all add: lowered_user_def)
qed

lemma geteuid_reads:
  "hoare (no_drop w) geteuid
     (\<lambda>u s. no_drop w s \<and> (u = 0 \<longrightarrow> True) \<and> (u \<noteq> 0 \<longrightarrow> lowered_user w s))
     (\<lambda>_. no_drop w)"
  unfolding hoare_def geteuid_def no_drop_def lowered_user_def
  by (auto simp: drop_defs)

lemma temporary_drop_lowers_user:
  assumes "ru \<noteq> 0"
  shows "hoare (no_drop w) (temporary_drop w ru rg) (\<lambda>_. lowered_user w) (\<lambda>_. no_drop w)"
  using assms unfolding hoare_def temporary_drop_def no_drop_def lowered_user_def
  by (auto simp: prog_defs drop_defs split: if_splits)

lemma permanent_drop_skipped:
  "euid (ids s) \<noteq> 0 \<Longrightarrow>
   permanent_drop w ru rg s = (Inr (), s\<lparr>trace := trace s @ [E_geteuid]\<rparr>)"
  by (simp add: permanent_drop_def prog_defs)

lemma permanent_drop_not_made:
  "hoare (lowered_user w) (permanent_drop w ru rg) (\<lambda>_. lowered_user w) (\<lambda>_. no_drop w)"
  unfolding hoare_def
  by (auto simp: permanent_drop_skipped lowered_user_def no_drop_def drop_defs)

lemma enter_no_drop:
  assumes "ruid c0 \<noteq> 0"
  shows "hoare (no_drop w) (main_enter w a i c0) (\<lambda>_. lowered_user w) (\<lambda>_. no_drop w)"
proof (rule main_enter_chain[where Pb="no_drop w" and Pc="no_drop w" and Pz="\<lambda>_. True"])
  show "hoare (no_drop w) geteuid
     (\<lambda>u s. no_drop w s \<and> (u = 0 \<longrightarrow> True) \<and> (u \<noteq> 0 \<longrightarrow> lowered_user w s)) (\<lambda>_. no_drop w)"
    by (rule geteuid_reads)
  show "hoare (no_drop w)
     (enter_non_classic_execution_environment w i (ruid c0) (rgid c0) (sgid c0))
     (\<lambda>_. no_drop w) (\<lambda>_. no_drop w)"
    by (rule enter_chain; rule no_drop_block, rule undropping_blocks)
  show "hoare (no_drop w) (temporary_drop w (ruid c0) (rgid c0)) (\<lambda>_. lowered_user w)
     (\<lambda>_. no_drop w)"
    by (rule temporary_drop_lowers_user[OF assms])
qed simp

lemma main_no_drop:
  assumes "ruid c0 \<noteq> 0"
  shows "hoare (\<lambda>s. no_drop w s \<and> ids s = c0) (main w) (\<lambda>_ _. True) (\<lambda>_. no_drop w)"
  by (rule main_values[where Ja="no_drop w" and Jb="no_drop w" and Jc="no_drop w"
        and Jd="no_drop w" and Je="no_drop w" and Jf="lowered_user w"
        and Jg="lowered_user w" and Jh="lowered_user w"];
      (rule enter_no_drop[OF assms] | rule permanent_drop_not_made |
       (rule lowered_user_block, rule undropping_whole) |
       (rule hoare_weaken[OF lowered_user_block[OF undropping_whole(2)]]; simp) |
       (rule no_drop_block, rule undropping_blocks)))

text \<open>So it is for every invoker other than root: neither call of the permanent drop is
  made, and the saved ids stay what they were.\<close>

lemma permanent_drop_never_made_for_a_user:
  assumes "ruid (init_ids w) \<noteq> 0"
  shows "list_all undropping (trace (final w)) \<and>
         suid (ids (final w)) = suid (init_ids w) \<and> sgid (ids (final w)) = sgid (init_ids w)"
  using hoare_final[OF main_no_drop[OF assms]]
  by (auto simp: start_def no_drop_def kept_ids_def)

text \<open>
  Claim C1 says that past the permanent drop the real, effective and saved user and group
  ids all equal the real ids of the invoker.  The drop of lines 238 to 246 is guarded by
  \<^verbatim>\<open>geteuid() == 0\<close>, and line 213 has lowered the effective user id before: in the
  launch of user 1000 through the set-user-id root, set-group-id root binary, line 238
  reads 1000, neither \<^verbatim>\<open>setgid\<close> nor \<^verbatim>\<open>setuid\<close> is called, and \<^verbatim>\<open>execv\<close> is
  reached with the saved user id 0 and the saved group id 0.
\<close>

theorem C1_user_launch_keeps_the_saved_ids:
  "init_ids user_launch =
     \<lparr>ruid = 1000, euid = 0, suid = 0, rgid = 1000, egid = 0, sgid = 0\<rparr> \<and>
   outcome user_launch = Inl (Exec ''/usr/lib/snapd/snap-exec'') \<and>
   ids (final user_launch) =
     \<lparr>ruid = 1000, euid = 1000, suid = 0, rgid = 1000, egid = 1000, sgid = 0\<rparr> \<and>
   \<not> dropped_to (init_ids user_launch) (ids (final user_launch)) \<and>
   filter (\<lambda>e. is_setgid e \<or> is_setuid e) (trace (final user_launch)) = [] \<and>
   take 2 (rev (trace (final user_launch))) = [E_execv ''/usr/lib/snapd/snap-exec'', E_geteuid]"
proof -
  have "init_ids user_launch =
     \<lparr>ruid = 1000, euid = 0, suid = 0, rgid = 1000, egid = 0, sgid = 0\<rparr>"
    by (simp add: user_launch_def)
  then show ?thesis
    by (simp add: user_launch_run dropped_to_def is_setgid_def is_setuid_def)
qed


subsection \<open>C2: the policy steps lie between the two drops\<close>






























lemma undropped_any:
  "undropped (trace s) \<Longrightarrow> frame (\<lambda>e. \<not> is_setgid e) f g s s' \<Longrightarrow> undropped (trace s')"
  by (auto simp: undropped_def frame_def list_all_iff)














subsection \<open>C9: PATH is reset without a check, the temporary directories with one\<close>

text \<open>What the block of lines 386 to 407 does establish when it returns.\<close>

lemma enter_environment_sets:
  assumes "enter_environment w s = (Inr x, s')"
  shows "env s' ''TMPDIR'' = Some ''/tmp'' \<and> env s' ''TEMPDIR'' = Some ''/tmp'' \<and>
         (\<not> fails w (trace s) (E_setenv ''PATH'' snap_PATH) \<longrightarrow> env s' ''PATH'' = Some snap_PATH) \<and>
         (fails w (trace s) (E_setenv ''PATH'' snap_PATH) \<longrightarrow> env s' ''PATH'' = env s ''PATH'')"
  using assms
  by (auto simp: enter_environment_def tmpd_def prog_defs split: if_splits)

lemma path_fails_launch_run:
  "outcome path_fails_launch = Inl (Exec ''/usr/lib/snapd/snap-exec'') \<and>
   filter is_setenv_or_die (trace (final path_fails_launch)) =
     [E_setenv ''PATH'' snap_PATH, E_setenv ''TMPDIR'' ''/tmp'', E_setenv ''TEMPDIR'' ''/tmp'',
      E_setenv ''SNAP_COOKIE'' ''c00kie'', E_setenv ''SNAP_CONTEXT'' ''c00kie''] \<and>
   env (final path_fails_launch) ''PATH'' = Some ''/host/bin'' \<and>
   env (final path_fails_launch) ''TMPDIR'' = Some ''/tmp'' \<and>
   env (final path_fails_launch) ''TEMPDIR'' = Some ''/tmp''"
  by (simp add: launch_defs path_fails_launch_def user_launch_def is_setenv_or_die_def)

lemma tmpdir_fails_launch_run:
  "outcome tmpdir_fails_launch = Inl Fatal \<and>
   filter is_setenv_or_die (trace (final tmpdir_fails_launch)) =
     [E_setenv ''PATH'' snap_PATH, E_setenv ''TMPDIR'' ''/tmp'',
      E_die cannot_set_variable]"
  by (simp add: launch_defs tmpdir_fails_launch_def user_launch_def is_setenv_or_die_def)

text \<open>
  Claim C9 says that after the environment is finalised \<^verbatim>\<open>PATH\<close> is the fixed value
  and \<^verbatim>\<open>TMPDIR\<close> and \<^verbatim>\<open>TEMPDIR\<close> are \<^verbatim>\<open>/tmp\<close>, whatever was inherited.  The
  result of the \<^verbatim>\<open>setenv\<close> of line 387 is not read, though: when that call fails, the
  launch goes on to \<^verbatim>\<open>execv\<close> with the inherited \<^verbatim>\<open>PATH\<close>, here \<^verbatim>\<open>/host/bin\<close>,
  while both temporary directories are \<^verbatim>\<open>/tmp\<close>.  The loop of lines 403 to 407 does
  read the result: when the \<^verbatim>\<open>setenv\<close> for \<^verbatim>\<open>TMPDIR\<close> fails, the launch dies.
\<close>

theorem C9_PATH_is_kept_when_setenv_fails:
  "init_env path_fails_launch ''PATH'' = Some ''/host/bin'' \<and>
   init_env path_fails_launch ''TMPDIR'' = Some ''/host/tmp'' \<and>
   outcome path_fails_launch = Inl (Exec ''/usr/lib/snapd/snap-exec'') \<and>
   filter is_setenv_or_die (trace (final path_fails_launch)) =
     [E_setenv ''PATH'' snap_PATH, E_setenv ''TMPDIR'' ''/tmp'', E_setenv ''TEMPDIR'' ''/tmp'',
      E_setenv ''SNAP_COOKIE'' ''c00kie'', E_setenv ''SNAP_CONTEXT'' ''c00kie''] \<and>
   env (final path_fails_launch) ''PATH'' = Some ''/host/bin'' \<and>
   env (final path_fails_launch) ''PATH'' \<noteq> Some snap_PATH \<and>
   env (final path_fails_launch) ''TMPDIR'' = Some ''/tmp'' \<and>
   env (final path_fails_launch) ''TEMPDIR'' = Some ''/tmp'' \<and>
   outcome tmpdir_fails_launch = Inl Fatal \<and>
   filter is_setenv_or_die (trace (final tmpdir_fails_launch)) =
     [E_setenv ''PATH'' snap_PATH, E_setenv ''TMPDIR'' ''/tmp'',
      E_die cannot_set_variable]"
proof -
  have "init_env path_fails_launch ''PATH'' = Some ''/host/bin'' \<and>
     init_env path_fails_launch ''TMPDIR'' = Some ''/host/tmp''"
    by (simp add: path_fails_launch_def user_launch_def)
  moreover have "snap_PATH \<noteq> ''/host/bin''"
    by (simp add: snap_PATH_def)
  ultimately show ?thesis
    using path_fails_launch_run tmpdir_fails_launch_run by simp
qed


subsection \<open>C4: namespace operations happen under the per-snap lock\<close>

lemma guarded_append:
  "guarded h (xs @ ys) = (guarded h xs \<and> guarded (foldl lock_step h xs) ys)"
  by (induction xs arbitrary: h) auto

lemma lock_free_run: "list_all lock_free evs \<Longrightarrow> guarded h evs \<and> foldl lock_step h evs = h"
  by (induction evs arbitrary: h)
     (auto simp: lock_free_def lock_step_def split: event.splits)

lemma lock_kept_run: "list_all lock_kept evs \<Longrightarrow> guarded True evs \<and> foldl lock_step True evs = True"
  by (induction evs) (auto simp: lock_kept_def lock_step_def split: event.splits)

lemma lock_free_unlock: "list_all lock_free evs \<Longrightarrow> E_unlock Snap_lock \<notin> set evs"
  by (auto simp: list_all_iff lock_free_def)

lemma lock_kept_unlock: "list_all lock_kept evs \<Longrightarrow> E_unlock Snap_lock \<notin> set evs"
  by (auto simp: list_all_iff lock_kept_def)

lemma lock_state_free:
  "lock_state h j z (trace s) \<Longrightarrow> frame lock_free f g s s' \<Longrightarrow> lock_state h j z (trace s')"
  by (auto simp: lock_state_def release_late_def frame_def guarded_append lock_free_run
        lock_free_unlock)

lemma lock_state_kept:
  "lock_state True j z (trace s) \<Longrightarrow> frame lock_kept f g s s' \<Longrightarrow>
   lock_state True j z (trace s')"
  by (auto simp: lock_state_def release_late_def frame_def guarded_append lock_kept_run
        lock_kept_unlock)

lemma lock_state_ok: "lock_state h j z t \<Longrightarrow> guarded False t \<and> release_late t"
  by (simp add: lock_state_def)

lemma free_arguments: "stays lock_free f g (main_arguments w)"
  unfolding phase_defs by (intro stays_intros allI; simp add: lock_free_def needs_snap_lock_def)

lemma free_identity: "stays lock_free (\<lambda>_. ()) g (main_identity w)"
  unfolding phase_defs by (intro stays_intros allI; simp add: lock_free_def needs_snap_lock_def)

lemma free_cookie: "stays lock_free f g (main_cookie w invo)"
  unfolding phase_defs by (intro stays_intros allI; simp add: lock_free_def needs_snap_lock_def)

lemma free_apparmor: "stays lock_free f g (main_apparmor w)"
  unfolding phase_defs by (intro stays_intros allI; simp add: lock_free_def needs_snap_lock_def)

lemma free_policy: "stays lock_free f (\<lambda>_. ()) (main_policy w invo x)"
  unfolding phase_defs by (intro stays_intros allI; simp add: lock_free_def needs_snap_lock_def)

lemma free_drop: "stays lock_free (\<lambda>_. ()) g (permanent_drop w u v)"
  unfolding phase_defs by (intro stays_intros allI; simp add: lock_free_def needs_snap_lock_def)

lemma free_exec: "stays lock_free f g (main_exec w args)"
  unfolding phase_defs by (intro stays_intros allI; simp add: lock_free_def needs_snap_lock_def)

lemma free_temporary_drop: "stays lock_free (\<lambda>_. ()) g (temporary_drop w u v)"
  unfolding phase_defs by (intro stays_intros allI; simp add: lock_free_def needs_snap_lock_def)

lemma free_global_init: "stays lock_free f g (enter_global_init w)"
  unfolding phase_defs by (intro stays_intros allI; simp add: lock_free_def needs_snap_lock_def)

lemma free_fixup_permissions: "stays lock_free f g (sc_maybe_fixup_permissions w)"
  unfolding phase_defs by (intro stays_intros allI; simp add: lock_free_def needs_snap_lock_def)

lemma free_fixup_udev: "stays lock_free f g (sc_maybe_fixup_udev w)"
  unfolding phase_defs by (intro stays_intros allI; simp add: lock_free_def needs_snap_lock_def)

lemma kept_user_namespace: "stays lock_kept f g (enter_user_namespace w u)"
  unfolding phase_defs by (intro stays_intros allI; simp add: lock_kept_def)

lemma kept_freezer: "stays lock_kept (\<lambda>_. ()) g (enter_freezer w invo rg sg)"
  unfolding phase_defs by (intro stays_intros allI; simp add: lock_kept_def)

lemma free_environment: "stays lock_free f (\<lambda>_. ()) (enter_environment w)"
  unfolding phase_defs by (intro stays_intros allI; simp add: lock_free_def needs_snap_lock_def)

lemma free_devices: "stays lock_free f g (enter_devices w invo)"
  unfolding phase_defs by (intro stays_intros allI; simp add: lock_free_def needs_snap_lock_def)

lemma snap_lock_locks:
  "hoare (\<lambda>s. lock_state False False False (trace s)) (enter_snap_lock w invo)
     (\<lambda>_ s. lock_state True False False (trace s))
     (\<lambda>_ s. guarded False (trace s) \<and> release_late (trace s))"
  unfolding hoare_def enter_snap_lock_def lock_state_def release_late_def
  by (simp add: trace_defs guarded_append lock_step_def needs_snap_lock_def is_join_def
        is_freezer_join_def)

lemma snap_namespace_joins:
  "hoare (\<lambda>s. lock_state True False False (trace s)) (enter_snap_namespace w)
     (\<lambda>_ s. lock_state True True False (trace s))
     (\<lambda>_ s. guarded False (trace s) \<and> release_late (trace s))"
  unfolding hoare_def enter_snap_namespace_def lock_state_def release_late_def
  by (simp add: trace_defs guarded_append lock_step_def needs_snap_lock_def is_join_def
        is_freezer_join_def)

lemma release_unlocks:
  "hoare (\<lambda>s. lock_state True True True (trace s)) (enter_release w)
     (\<lambda>_ s. lock_state False True True (trace s))
     (\<lambda>_ s. guarded False (trace s) \<and> release_late (trace s))"
  unfolding hoare_def enter_release_def lock_state_def release_late_def
  by (simp add: trace_defs guarded_append lock_step_def needs_snap_lock_def is_join_def
        is_freezer_join_def)


lemma freezer_joins:
  "hoare (\<lambda>_. True) (enter_freezer w invo rg sg)
     (\<lambda>_ s. list_ex is_freezer_join (trace s)) (\<lambda>_ _. True)"
  unfolding enter_freezer_def
  apply (rule hoare_bnd[where R="\<lambda>_ _. True"], rule hoare_True)
  apply (rule hoare_nxt[where R="\<lambda>_. True"], rule hoare_True)
  apply (rule hoare_nxt[where R="\<lambda>_. True"], rule hoare_True)
  apply (rule hoare_nxt[where R="\<lambda>s. list_ex is_freezer_join (trace s)"])
   apply (simp add: hoare_def call_def is_freezer_join_def)
  apply (rule hoare_frame[where A="\<lambda>_. True" and f="\<lambda>_. ()" and g="\<lambda>_. ()"])
    apply (intro stays_intros allI; simp)
   apply (auto simp: frame_def)
  done

lemma lock_geteuid:
  "hoare (\<lambda>s. lock_state h j z (trace s)) geteuid
     (\<lambda>u s. lock_state h j z (trace s) \<and> (u = 0 \<longrightarrow> True) \<and> (u \<noteq> 0 \<longrightarrow> lock_state h j z (trace s)))
     E"
  unfolding hoare_def geteuid_def lock_state_def release_late_def
  by (simp add: guarded_append lock_step_def needs_snap_lock_def is_join_def is_freezer_join_def)

lemma enter_locks:
  "hoare (\<lambda>s. lock_state False False False (trace s))
     (enter_non_classic_execution_environment w invo ru rg sg)
     (\<lambda>_ s. lock_state False False False (trace s))
     (\<lambda>_ s. guarded False (trace s) \<and> release_late (trace s))"
  apply (rule enter_chain[where
        Pb="\<lambda>s. lock_state False False False (trace s)"
    and Pc="\<lambda>s. lock_state True False False (trace s)"
    and Pd="\<lambda>s. lock_state True True False (trace s)"
    and Pe="\<lambda>s. lock_state True True False (trace s)"
    and Pf="\<lambda>s. lock_state True True False (trace s)"
    and Pg="\<lambda>s. lock_state True True False (trace s)"
    and Ph="\<lambda>s. lock_state True True True (trace s)"
    and Pi="\<lambda>s. lock_state False True True (trace s)"
    and Pj="\<lambda>s. lock_state False True True (trace s)"])
           apply (rule hoare_frame[OF free_global_init[where f="\<lambda>_. ()" and g="\<lambda>_. ()"]];
                  blast dest: lock_state_free lock_state_ok)
          apply (rule snap_lock_locks)
         apply (rule snap_namespace_joins)
        apply (rule hoare_frame[OF free_fixup_permissions[where f="\<lambda>_. ()" and g="\<lambda>_. ()"]];
               blast dest: lock_state_free lock_state_ok)
       apply (rule hoare_frame[OF free_fixup_udev[where f="\<lambda>_. ()" and g="\<lambda>_. ()"]];
              blast dest: lock_state_free lock_state_ok)
      apply (rule hoare_frame[OF kept_user_namespace[where f="\<lambda>_. ()" and g="\<lambda>_. ()"]];
             blast dest: lock_state_kept lock_state_ok)
     apply (rule hoare_frame_with[OF kept_freezer[where g="\<lambda>_. ()"] freezer_joins])
       apply simp
      apply (drule (1) lock_state_kept, simp add: lock_state_def)
     apply (blast dest: lock_state_kept lock_state_ok)
    apply (rule release_unlocks)
   apply (rule hoare_frame[OF free_environment[where f="\<lambda>_. ()"]];
          blast dest: lock_state_free lock_state_ok)
  apply (rule hoare_frame[OF free_devices[where f="\<lambda>_. ()" and g="\<lambda>_. ()"]])
   apply (drule (1) lock_state_free, simp add: lock_state_def)
  apply (blast dest: lock_state_free lock_state_ok)
  done

lemma main_enter_locks:
  "hoare (\<lambda>s. lock_state False False False (trace s)) (main_enter w args invo c)
     (\<lambda>_ s. lock_state False False False (trace s))
     (\<lambda>_ s. guarded False (trace s) \<and> release_late (trace s))"
  apply (rule main_enter_chain[where Pb="\<lambda>s. lock_state False False False (trace s)"
         and Pz="\<lambda>_. True" and Pc="\<lambda>s. lock_state False False False (trace s)"])
     apply (rule hoare_frame[where A=lock_free and f="\<lambda>_. ()" and g="\<lambda>_. ()"])
       apply (intro stays_intros; simp add: lock_free_def needs_snap_lock_def)
      apply (blast dest: lock_state_free)
     apply (blast dest: lock_state_free lock_state_ok)
    apply (rule enter_locks)
   apply simp
  apply (rule hoare_frame[OF free_temporary_drop[where g="\<lambda>_. ()"]];
         blast dest: lock_state_free lock_state_ok)
  done

lemma main_locks:
  "hoare (\<lambda>s. lock_state False False False (trace s)) (main w)
     (\<lambda>_ _. True) (\<lambda>_ s. guarded False (trace s) \<and> release_late (trace s))"
  apply (rule main_chain[where
         Pb="\<lambda>_ _ s. lock_state False False False (trace s)"
     and Pc="\<lambda>_ _ _ s. lock_state False False False (trace s)"
     and Pd="\<lambda>_ _ _ _ s. lock_state False False False (trace s)"
     and Pe="\<lambda>_ _ _ _ s. lock_state False False False (trace s)"
     and Pf="\<lambda>_ _ _ _ s. lock_state False False False (trace s)"
     and Pg="\<lambda>_ _ _ _ s. lock_state False False False (trace s)"
     and Ph="\<lambda>_ _ _ _ s. lock_state False False False (trace s)"])
         apply (rule hoare_frame[OF free_arguments[where f="\<lambda>_. ()" and g="\<lambda>_. ()"]];
                auto dest: lock_state_free lock_state_ok)
        apply (rule hoare_frame[OF free_identity[where g="\<lambda>_. ()"]];
               blast dest: lock_state_free lock_state_ok)
       apply (rule hoare_frame[OF free_cookie[where f="\<lambda>_. ()" and g="\<lambda>_. ()"]];
              blast dest: lock_state_free lock_state_ok)
      apply (rule hoare_frame[OF free_apparmor[where f="\<lambda>_. ()" and g="\<lambda>_. ()"]];
             blast dest: lock_state_free lock_state_ok)
     apply (rule main_enter_locks)
    apply (rule hoare_frame[OF free_policy[where f="\<lambda>_. ()"]];
           blast dest: lock_state_free lock_state_ok)
   apply (rule hoare_frame[OF free_drop[where g="\<lambda>_. ()"]];
          blast dest: lock_state_free lock_state_ok)
  apply (rule hoare_frame[OF free_exec[where f="\<lambda>_. ()" and g="\<lambda>_. ()"]])
   apply simp
  apply (blast dest: lock_state_free lock_state_ok)
  done

text \<open>
  Claim C4.  In every run, each join attempt, \<^verbatim>\<open>unshare\<close>, population and
  preservation of a namespace (per snap and per user) and the association with the
  freezer control group is made while the per-snap lock is held: after
  \<^verbatim>\<open>sc_lock_snap\<close> and before \<^verbatim>\<open>sc_unlock\<close> of its descriptor.  The lock is
  released only in a run that has made the join attempt and the control-group association,
  which by the first part lie before the release.
\<close>

theorem C4_namespace_work_under_the_snap_lock:
  "guarded False (trace (final w)) \<and>
   (E_unlock Snap_lock \<in> set (trace (final w)) \<longrightarrow>
      list_ex is_join (trace (final w)) \<and> list_ex is_freezer_join (trace (final w)))"
  using hoare_final[OF main_locks, of w]
  by (auto simp: start_def lock_state_def release_late_def)

theorem C4_witness:
  "guarded False (trace (final user_launch)) \<and>
   E_unlock Snap_lock \<in> set (trace (final user_launch)) \<and>
   list_ex is_join (trace (final user_launch)) \<and>
   list_ex is_freezer_join (trace (final user_launch)) \<and>
   filter needs_snap_lock (trace (final user_launch)) =
     [E_join_preserved_ns 3, E_unshare Per_snap, E_populate_mount_ns,
      E_preserve_populated_mount_ns, E_join_preserved_per_user_ns 3, E_unshare Per_user,
      E_setup_user_mounts, E_cgroup_freezer_join ''app'']"
  using C4_namespace_work_under_the_snap_lock[of user_launch]
  by (simp add: user_launch_run needs_snap_lock_def is_join_def is_freezer_join_def lock_step_def)


subsection \<open>C5: a new namespace is built exactly after ESRCH\<close>

lemma construction_step:
  "construction_settled w pre \<Longrightarrow> construction_free e \<Longrightarrow>
   construction_rule w pre e \<and> construction_settled w (pre @ [e])"
  by (auto simp: construction_settled_def construction_free_def construction_rule_def
        returned_def failed_def split: event.splits)

lemma unfailed_step:
  "True \<Longrightarrow> construction_free e \<Longrightarrow> unfailed w is_construction pre e \<and> True"
  by (auto simp: unfailed_def is_construction_def construction_free_def)

lemma constructed_frame:
  assumes "constructed w (trace s)" and "frame construction_free f g s s'"
  shows "constructed w (trace s')"
proof -
  from assms(2) obtain evs where evs: "trace s' = trace s @ evs" "list_all construction_free evs"
    by (auto simp: frame_def)
  from assms(1) have a: "each_step (construction_rule w) [] (trace s)"
    and b: "construction_settled w (trace s)"
    and c: "each_step (unfailed w is_construction) [] (trace s)"
    by (simp_all add: constructed_def)
  have 1: "each_step (construction_rule w) [] (trace s @ evs) \<and> construction_settled w (trace s @ evs)"
    by (rule each_step_frame[where A=construction_free, OF construction_step a b evs(2)])
  have 2: "each_step (unfailed w is_construction) [] (trace s @ evs) \<and> True"
    by (rule each_step_frame[where A=construction_free and I="\<lambda>_. True", OF unfailed_step c _ evs(2)])
       simp_all
  from 1 2 evs show ?thesis by (simp add: constructed_def)
qed

lemma snap_namespace_constructs:
  "hoare (\<lambda>s. constructed w (trace s)) (enter_snap_namespace w)
     (\<lambda>_ s. constructed w (trace s))
     (\<lambda>h s. each_step (construction_rule w) [] (trace s) \<and>
            \<not> construction_pending w (trace s) \<and>
            (h \<noteq> Fatal \<longrightarrow> each_step (unfailed w is_construction) [] (trace s)))"
  unfolding hoare_def enter_snap_namespace_def constructed_def
  by (auto simp: trace_defs each_step_append construction_rule_def construction_settled_def
        construction_pending_def
        returned_def failed_def unfailed_def is_construction_def butlast_append ESRCH_def)


lemma construction_free_blocks:
  "stays construction_free (\<lambda>_. ()) (\<lambda>_. ()) (main_arguments w)"
  "stays construction_free (\<lambda>_. ()) (\<lambda>_. ()) (main_identity w)"
  "stays construction_free (\<lambda>_. ()) (\<lambda>_. ()) (main_cookie w i)"
  "stays construction_free (\<lambda>_. ()) (\<lambda>_. ()) (main_apparmor w)"
  "stays construction_free (\<lambda>_. ()) (\<lambda>_. ()) geteuid"
  "stays construction_free (\<lambda>_. ()) (\<lambda>_. ()) (enter_global_init w)"
  "stays construction_free (\<lambda>_. ()) (\<lambda>_. ()) (enter_snap_lock w i)"
  "stays construction_free (\<lambda>_. ()) (\<lambda>_. ()) (sc_maybe_fixup_permissions w)"
  "stays construction_free (\<lambda>_. ()) (\<lambda>_. ()) (sc_maybe_fixup_udev w)"
  "stays construction_free (\<lambda>_. ()) (\<lambda>_. ()) (enter_user_namespace w u)"
  "stays construction_free (\<lambda>_. ()) (\<lambda>_. ()) (enter_freezer w i g sg)"
  "stays construction_free (\<lambda>_. ()) (\<lambda>_. ()) (enter_release w)"
  "stays construction_free (\<lambda>_. ()) (\<lambda>_. ()) (enter_environment w)"
  "stays construction_free (\<lambda>_. ()) (\<lambda>_. ()) (enter_devices w i)"
  "stays construction_free (\<lambda>_. ()) (\<lambda>_. ()) (temporary_drop w u g)"
  "stays construction_free (\<lambda>_. ()) (\<lambda>_. ()) (main_policy w i x)"
  "stays construction_free (\<lambda>_. ()) (\<lambda>_. ()) (permanent_drop w u g)"
  "stays construction_free (\<lambda>_. ()) (\<lambda>_. ()) (main_exec w a)"
  unfolding phase_defs
  by (intro stays_intros allI; simp add: construction_free_def)+

lemma constructed_ok:
  "constructed w t \<Longrightarrow> each_step (construction_rule w) [] t \<and>
     \<not> construction_pending w t \<and>
     (h \<noteq> Fatal \<longrightarrow> each_step (unfailed w is_construction) [] t)"
  by (simp add: constructed_def construction_settled_def construction_pending_def)

lemma main_constructs:
  "hoare (\<lambda>s. constructed w (trace s) \<and> ids s = c0) (main w) (\<lambda>_ _. True)
     (\<lambda>h s. each_step (construction_rule w) [] (trace s) \<and>
            \<not> construction_pending w (trace s) \<and>
            (h \<noteq> Fatal \<longrightarrow> each_step (unfailed w is_construction) [] (trace s)))"
  by (rule main_keeps[where I="\<lambda>s. constructed w (trace s)"];
      (rule snap_namespace_constructs |
       (rule hoare_frame, rule construction_free_blocks,
        (simp | blast dest: constructed_frame constructed_ok)+)))

lemma joined_launch_run:
  "outcome joined_launch = Inl (Exec ''/usr/lib/snapd/snap-exec'') \<and>
   trace (final joined_launch) =
     [E_parse_args, E_getenv ''SNAP_INSTANCE_NAME'', E_instance_name_validate ''app'',
      E_verify_security_tag ''snap.app.cmd'' ''app'', E_snap_name_validate ''core'',
      E_getresuid, E_getresgid, E_setegid 1000, E_geteuid,
      E_is_hook_security_tag ''snap.app.cmd'', E_cookie_get_from_snapd ''app'',
      E_init_apparmor_support, E_geteuid,
      E_reassociate_with_pid1_mount_ns, E_lock_global, E_ensure_shared_snap_mount,
      E_initialize_mount_ns, E_unlock Global_lock, E_open_snap_update_ns,
      E_open_snap_discard_ns, E_lock_snap ''app'', E_open_mount_ns ''app'',
      E_should_use_normal_mode ''core'', E_fork_helper, E_join_preserved_ns 0,
      E_stat ''/var/lib'', E_glob ''/run/udev/tags/snap_*/*nvidia*'',
      E_join_preserved_per_user_ns 0, E_getegid, E_setegid 0, E_getpid,
      E_cgroup_freezer_join ''app'', E_geteuid, E_setegid 1000, E_unlock Snap_lock,
      E_close_mount_ns, E_setenv ''PATH'' snap_PATH, E_setenv ''TMPDIR'' ''/tmp'',
      E_setenv ''TEMPDIR'' ''/tmp'', E_udev_init ''snap.app.cmd'',
      E_setup_devices_cgroup ''snap.app.cmd'', E_udev_cleanup,
      E_setegid 1000, E_seteuid 1000, E_geteuid, E_getegid,
      E_setup_user_data, E_aa_change_onexec ''snap.app.cmd'',
      E_apply_seccomp_profile ''snap.app.cmd'', E_apply_global_seccomp,
      E_setenv ''SNAP_COOKIE'' ''c00kie'', E_setenv ''SNAP_CONTEXT'' ''c00kie'',
      E_geteuid, E_execv ''/usr/lib/snapd/snap-exec'']"
  by (simp add: eval_defs joined_launch_def user_launch_def)

lemma unshare_fails_launch_run:
  "outcome unshare_fails_launch = Inl Fatal \<and>
   trace (final unshare_fails_launch) =
     [E_parse_args, E_getenv ''SNAP_INSTANCE_NAME'', E_instance_name_validate ''app'',
      E_verify_security_tag ''snap.app.cmd'' ''app'', E_snap_name_validate ''core'',
      E_getresuid, E_getresgid, E_setegid 1000, E_geteuid,
      E_is_hook_security_tag ''snap.app.cmd'', E_cookie_get_from_snapd ''app'',
      E_init_apparmor_support, E_geteuid,
      E_reassociate_with_pid1_mount_ns, E_lock_global, E_ensure_shared_snap_mount,
      E_initialize_mount_ns, E_unlock Global_lock, E_open_snap_update_ns,
      E_open_snap_discard_ns, E_lock_snap ''app'', E_open_mount_ns ''app'',
      E_should_use_normal_mode ''core'', E_fork_helper, E_join_preserved_ns 3,
      E_unshare Per_snap, E_die ''cannot unshare the mount namespace'']"
  by (simp add: eval_defs unshare_fails_launch_def user_launch_def)

text \<open>
  Claim C5.  In every run, step by step: the per-snap \<^verbatim>\<open>unshare\<close> is made exactly
  after a call of \<^verbatim>\<open>sc_join_preserved_ns\<close> that returned \<^verbatim>\<open>ESRCH\<close>;
  \<^verbatim>\<open>sc_populate_mount_ns\<close> is called exactly after that \<^verbatim>\<open>unshare\<close> succeeded,
  and \<^verbatim>\<open>sc_preserve_populated_mount_ns\<close> exactly after the population returned.
  A failed \<^verbatim>\<open>unshare\<close> is followed by \<^verbatim>\<open>die\<close>, a population or preservation
  that fails by nothing at all.  No run stops where one of these steps is due, and a
  run that does not end fatally has no failed construction step.
\<close>

theorem C5_construction_exactly_after_ESRCH:
  "each_step (construction_rule w) [] (trace (final w)) \<and>
   \<not> construction_pending w (trace (final w)) \<and>
   (outcome w \<noteq> Inl Fatal \<longrightarrow> each_step (unfailed w is_construction) [] (trace (final w)))"
  using hoare_final[OF main_constructs, of w "init_ids w"]
  by (auto simp: start_def constructed_def construction_settled_def returned_def failed_def)

theorem C5_witness:
  "each_step (construction_rule user_launch) [] (trace (final user_launch)) \<and>
   E_join_preserved_ns ESRCH \<in> set (trace (final user_launch)) \<and>
   filter is_construction (trace (final user_launch)) =
     [E_unshare Per_snap, E_populate_mount_ns, E_preserve_populated_mount_ns] \<and>
   outcome user_launch \<noteq> Inl Fatal \<and>
   each_step (unfailed user_launch is_construction) [] (trace (final user_launch)) \<and>
   each_step (construction_rule joined_launch) [] (trace (final joined_launch)) \<and>
   E_join_preserved_ns 0 \<in> set (trace (final joined_launch)) \<and>
   filter is_construction (trace (final joined_launch)) = [] \<and>
   each_step (construction_rule unshare_fails_launch) [] (trace (final unshare_fails_launch)) \<and>
   outcome unshare_fails_launch = Inl Fatal"
proof -
  have "outcome user_launch \<noteq> Inl Fatal"
    by (simp add: user_launch_run)
  with C5_construction_exactly_after_ESRCH[of user_launch]
  have "each_step (construction_rule user_launch) [] (trace (final user_launch)) \<and>
        each_step (unfailed user_launch is_construction) [] (trace (final user_launch))"
    by simp
  moreover have "E_join_preserved_ns ESRCH \<in> set (trace (final user_launch)) \<and>
     filter is_construction (trace (final user_launch)) =
       [E_unshare Per_snap, E_populate_mount_ns, E_preserve_populated_mount_ns] \<and>
     outcome user_launch \<noteq> Inl Fatal"
    by (simp add: user_launch_run is_construction_def ESRCH_def)
  moreover have "E_join_preserved_ns 0 \<in> set (trace (final joined_launch)) \<and>
     filter is_construction (trace (final joined_launch)) = []"
    by (simp add: joined_launch_run is_construction_def)
  moreover have "outcome unshare_fails_launch = Inl Fatal"
    by (simp add: unshare_fails_launch_run)
  ultimately show ?thesis
    using C5_construction_exactly_after_ESRCH[of joined_launch]
      C5_construction_exactly_after_ESRCH[of unshare_fails_launch]
    by simp
qed


subsection \<open>C6: the per-user namespace, and its preservation behind the flag\<close>

lemma per_user_step:
  "per_user_settled w pre \<Longrightarrow> per_user_free e \<Longrightarrow>
   per_user_rule w pre e \<and> per_user_settled w (pre @ [e])"
  by (auto simp: per_user_settled_def per_user_free_def per_user_rule_def returned_def
      is_per_user_def split: event.splits)

lemma per_user_frame:
  assumes "per_user_done w (trace s)" and "frame per_user_free f g s s'"
  shows "per_user_done w (trace s')"
proof -
  from assms(2) obtain evs where evs: "trace s' = trace s @ evs" "list_all per_user_free evs"
    by (auto simp: frame_def)
  from assms(1) have a: "each_step (per_user_rule w) [] (trace s)"
    and b: "per_user_settled w (trace s)"
    by (simp_all add: per_user_done_def)
  have "each_step (per_user_rule w) [] (trace s @ evs) \<and> per_user_settled w (trace s @ evs)"
    by (rule each_step_frame[where A=per_user_free, OF per_user_step a b evs(2)])
  with evs show ?thesis by (simp add: per_user_done_def)
qed

lemma user_namespace_per_user:
  "hoare (\<lambda>s. per_user_done w (trace s)) (enter_user_namespace w (ruid (init_ids w)))
     (\<lambda>_ s. per_user_done w (trace s))
     (\<lambda>_ s. per_user_done w (trace s))"
  unfolding hoare_def enter_user_namespace_def per_user_done_def
  by (auto simp: trace_defs each_step_append per_user_rule_def per_user_settled_def
      returned_def is_per_user_def butlast_append ESRCH_def)

lemma per_user_free_blocks:
  "stays per_user_free (\<lambda>_. ()) (\<lambda>_. ()) (main_arguments w)"
  "stays per_user_free (\<lambda>_. ()) (\<lambda>_. ()) (main_identity w)"
  "stays per_user_free (\<lambda>_. ()) (\<lambda>_. ()) (main_cookie w i)"
  "stays per_user_free (\<lambda>_. ()) (\<lambda>_. ()) (main_apparmor w)"
  "stays per_user_free (\<lambda>_. ()) (\<lambda>_. ()) geteuid"
  "stays per_user_free (\<lambda>_. ()) (\<lambda>_. ()) (enter_global_init w)"
  "stays per_user_free (\<lambda>_. ()) (\<lambda>_. ()) (enter_snap_lock w i)"
  "stays per_user_free (\<lambda>_. ()) (\<lambda>_. ()) (enter_snap_namespace w)"
  "stays per_user_free (\<lambda>_. ()) (\<lambda>_. ()) (sc_maybe_fixup_permissions w)"
  "stays per_user_free (\<lambda>_. ()) (\<lambda>_. ()) (sc_maybe_fixup_udev w)"
  "stays per_user_free (\<lambda>_. ()) (\<lambda>_. ()) (enter_freezer w i g sg)"
  "stays per_user_free (\<lambda>_. ()) (\<lambda>_. ()) (enter_release w)"
  "stays per_user_free (\<lambda>_. ()) (\<lambda>_. ()) (enter_environment w)"
  "stays per_user_free (\<lambda>_. ()) (\<lambda>_. ()) (enter_devices w i)"
  "stays per_user_free (\<lambda>_. ()) (\<lambda>_. ()) (temporary_drop w u g)"
  "stays per_user_free (\<lambda>_. ()) (\<lambda>_. ()) (main_policy w i x)"
  "stays per_user_free (\<lambda>_. ()) (\<lambda>_. ()) (permanent_drop w u g)"
  "stays per_user_free (\<lambda>_. ()) (\<lambda>_. ()) (main_exec w a)"
  unfolding phase_defs
  by (intro stays_intros allI; simp add: per_user_free_def is_per_user_def)+

lemma main_per_user:
  "hoare (\<lambda>s. per_user_done w (trace s) \<and> ids s = init_ids w) (main w) (\<lambda>_ _. True)
     (\<lambda>h s. per_user_done w (trace s))"
  by (rule main_keeps[where I="\<lambda>s. per_user_done w (trace s)"];
      (rule user_namespace_per_user |
       (rule hoare_frame, rule per_user_free_blocks,
        (simp | blast intro: per_user_frame)+)))

lemma flag_launch_run:
  "outcome flag_launch = Inl (Exec ''/usr/lib/snapd/snap-exec'') \<and>
   filter is_per_user (trace (final flag_launch)) =
     [E_join_preserved_per_user_ns ESRCH, E_unshare Per_user, E_setup_user_mounts,
      E_feature_enabled SC_PER_USER_MOUNT_NAMESPACE, E_preserve_populated_per_user_mount_ns]"
  by (simp add: eval_defs flag_launch_def user_launch_def is_per_user_def)

text \<open>
  Claim C6.  In every run, step by step: a per-user namespace operation (join, unshare,
  user mounts, query of the feature flag, preservation) is made only if the real user id
  of the invoker is not 0; the per-user \<^verbatim>\<open>unshare\<close> is made exactly after
  \<^verbatim>\<open>sc_join_preserved_per_user_ns\<close> returned \<^verbatim>\<open>ESRCH\<close>, \<^verbatim>\<open>sc_setup_user_mounts\<close>
  exactly after that \<^verbatim>\<open>unshare\<close> succeeded, the query of
  \<^verbatim>\<open>SC_PER_USER_MOUNT_NAMESPACE\<close> exactly after the mounts were set up, and
  \<^verbatim>\<open>sc_preserve_populated_per_user_mount_ns\<close> exactly after the query when the flag
  is enabled.  No run stops where one of these steps is due.
\<close>

theorem C6_per_user_namespace_behind_the_flag:
  "each_step (per_user_rule w) [] (trace (final w)) \<and> per_user_settled w (trace (final w))"
  using hoare_final[OF main_per_user, of w]
  by (auto simp: start_def per_user_done_def per_user_settled_def returned_def)

theorem C6_witness:
  "each_step (per_user_rule user_launch) [] (trace (final user_launch)) \<and>
   ruid (init_ids user_launch) \<noteq> 0 \<and> \<not> feature_on user_launch SC_PER_USER_MOUNT_NAMESPACE \<and>
   filter is_per_user (trace (final user_launch)) =
     [E_join_preserved_per_user_ns ESRCH, E_unshare Per_user, E_setup_user_mounts,
      E_feature_enabled SC_PER_USER_MOUNT_NAMESPACE] \<and>
   each_step (per_user_rule flag_launch) [] (trace (final flag_launch)) \<and>
   feature_on flag_launch SC_PER_USER_MOUNT_NAMESPACE \<and>
   filter is_per_user (trace (final flag_launch)) =
     [E_join_preserved_per_user_ns ESRCH, E_unshare Per_user, E_setup_user_mounts,
      E_feature_enabled SC_PER_USER_MOUNT_NAMESPACE, E_preserve_populated_per_user_mount_ns] \<and>
   each_step (per_user_rule joined_launch) [] (trace (final joined_launch)) \<and>
   filter is_per_user (trace (final joined_launch)) = [E_join_preserved_per_user_ns 0] \<and>
   each_step (per_user_rule root_launch) [] (trace (final root_launch)) \<and>
   ruid (init_ids root_launch) = 0 \<and>
   filter is_per_user (trace (final root_launch)) = []"
proof -
  have "ruid (init_ids user_launch) \<noteq> 0 \<and> \<not> feature_on user_launch SC_PER_USER_MOUNT_NAMESPACE \<and>
     filter is_per_user (trace (final user_launch)) =
       [E_join_preserved_per_user_ns ESRCH, E_unshare Per_user, E_setup_user_mounts,
        E_feature_enabled SC_PER_USER_MOUNT_NAMESPACE]"
    by (simp add: user_launch_run is_per_user_def ESRCH_def) (simp add: user_launch_def)
  moreover have "feature_on flag_launch SC_PER_USER_MOUNT_NAMESPACE"
    by (simp add: flag_launch_def)
  moreover have "filter is_per_user (trace (final joined_launch)) = [E_join_preserved_per_user_ns 0]"
    by (simp add: joined_launch_run is_per_user_def)
  moreover have "ruid (init_ids root_launch) = 0 \<and>
     filter is_per_user (trace (final root_launch)) = []"
    by (simp add: root_launch_run is_per_user_def) (simp add: root_launch_def user_launch_def)
  ultimately show ?thesis
    using C6_per_user_namespace_behind_the_flag[of user_launch] C6_per_user_namespace_behind_the_flag[of flag_launch] C6_per_user_namespace_behind_the_flag[of joined_launch] C6_per_user_namespace_behind_the_flag[of root_launch]
      flag_launch_run
    by simp
qed



subsection \<open>C7: an unconfined launcher with elevated permissions refuses to run\<close>

lemma arguments_elevated:
  "\<not> version_query w \<Longrightarrow> hoare elevated (main_arguments w) (\<lambda>_. elevated) refused"
  unfolding hoare_def main_arguments_def elevated_def refused_def version_query_def
  by (auto simp: trace_defs preliminary_def split: sum.splits option.splits)

lemma identity_elevated:
  "hoare elevated (main_identity w) (\<lambda>_. elevated) refused"
  unfolding hoare_def main_identity_def elevated_def refused_def
  by (auto simp: prog_defs preliminary_def split: sum.splits option.splits if_splits)

lemma cookie_elevated:
  "hoare elevated (main_cookie w i) (\<lambda>_. elevated) refused"
  unfolding hoare_def main_cookie_def elevated_def refused_def
  by (auto simp: trace_defs preliminary_def split: sum.splits option.splits)

lemma apparmor_refuses:
  "\<not> is_confined (apparmor w) \<Longrightarrow> mode (apparmor w) \<noteq> SC_AA_NOT_APPLICABLE \<Longrightarrow>
   hoare elevated (main_apparmor w) (\<lambda>_ _. False) refused"
  unfolding hoare_def main_apparmor_def elevated_def refused_def
  by (auto simp: trace_defs preliminary_def split: sum.splits option.splits)

lemma main_refuses:
  assumes "\<not> version_query w" and "\<not> is_confined (apparmor w)"
    and "mode (apparmor w) \<noteq> SC_AA_NOT_APPLICABLE"
  shows "hoare (\<lambda>s. elevated s \<and> ids s = c0) (main w) (\<lambda>_ _. True) refused"
  by (rule main_values[where Ja=elevated and Jb=elevated and Jc=elevated and Jd=elevated
        and Je="\<lambda>_. False" and Jf="\<lambda>_. False" and Jg="\<lambda>_. False" and Jh="\<lambda>_. False"];
      (rule arguments_elevated[OF assms(1)] | rule identity_elevated | rule cookie_elevated |
       rule apparmor_refuses[OF assms(2,3)] | rule hoare_False))

text \<open>
  Claim C7, amended by the version query.  For every invocation that is not a version
  query, on a system where AppArmor is applicable: if the process is not confined, the
  real user id is not 0 and the effective user id is 0, the run is fatal, and all it has
  called are the preliminary calls of lines 115 to 192: it has taken no lock, touched no
  namespace or control group and applied no policy.
\<close>

theorem C7_unconfined_and_elevated_is_refused:
  assumes "\<not> version_query w"
    and "\<not> is_confined (apparmor w)" and "mode (apparmor w) \<noteq> SC_AA_NOT_APPLICABLE"
    and "ruid (init_ids w) \<noteq> 0" and "euid (init_ids w) = 0"
  shows "outcome w = Inl Fatal \<and> list_all preliminary (trace (final w))"
  using hoare_final[OF main_refuses[OF assms(1-3)], of "init_ids w"] assms(4,5)
  by (auto simp: start_def elevated_def refused_def)

lemma unconfined_launch_run:
  "run unconfined_launch =
     (Inl Fatal,
      \<lparr>ids = \<lparr>ruid = 1000, euid = 0, suid = 0, rgid = 1000, egid = 1000, sgid = 0\<rparr>,
       env = init_env user_launch,
       trace = [E_parse_args, E_getenv ''SNAP_INSTANCE_NAME'', E_instance_name_validate ''app'',
         E_verify_security_tag ''snap.app.cmd'' ''app'', E_snap_name_validate ''core'',
         E_getresuid, E_getresgid, E_setegid 1000, E_geteuid,
         E_is_hook_security_tag ''snap.app.cmd'', E_cookie_get_from_snapd ''app'',
         E_init_apparmor_support, E_getuid, E_geteuid,
         E_die ''snap-confine has elevated permissions and is not confined but should be. Refusing to continue to avoid permission escalation attacks'']\<rparr>)"
  by (simp add: eval_defs unconfined_launch_def user_launch_def)

text \<open>The claim as it stands, without the exception of the version query, fails: asked
  for its version, the unconfined launcher with real user id 1000 and effective user id 0
  prints it and returns 0 at line 121.\<close>

theorem C7_counterexample:
  "\<not> is_confined (apparmor unconfined_version_query) \<and>
   mode (apparmor unconfined_version_query) \<noteq> SC_AA_NOT_APPLICABLE \<and>
   ruid (init_ids unconfined_version_query) \<noteq> 0 \<and>
   euid (init_ids unconfined_version_query) = 0 \<and>
   run unconfined_version_query =
     (Inl (Return 0),
      \<lparr>ids = init_ids unconfined_version_query, env = init_env unconfined_version_query,
       trace = [E_parse_args, E_printf_version]\<rparr>) \<and>
   outcome unconfined_version_query \<noteq> Inl Fatal"
  by (simp add: eval_defs unconfined_version_query_def unconfined_launch_def user_launch_def)

theorem C7_witness:
  "\<not> version_query unconfined_launch \<and> \<not> is_confined (apparmor unconfined_launch) \<and>
   mode (apparmor unconfined_launch) \<noteq> SC_AA_NOT_APPLICABLE \<and>
   ruid (init_ids unconfined_launch) \<noteq> 0 \<and> euid (init_ids unconfined_launch) = 0 \<and>
   outcome unconfined_launch = Inl Fatal \<and>
   list_all preliminary (trace (final unconfined_launch))"
  using C7_unconfined_and_elevated_is_refused[of unconfined_launch]
  by (simp add: unconfined_launch_def user_launch_def version_query_def)

subsection \<open>C8: no instance name\<close>

lemma main_arguments_no_instance:
  assumes "env s ''SNAP_INSTANCE_NAME'' = None" and "\<not> version_query w"
  shows "main_arguments w s =
     (Inl Fatal, s\<lparr>trace := trace s @
        (case parsed w of
           Inl msg \<Rightarrow> [E_parse_args, E_die msg]
         | Inr a \<Rightarrow> [E_parse_args, E_getenv ''SNAP_INSTANCE_NAME'',
                     E_die ''SNAP_INSTANCE_NAME is not set''])\<rparr>)"
  using assms
  by (auto simp: main_arguments_def version_query_def prog_defs split: sum.splits)

text \<open>
  Claim C8.  When \<^verbatim>\<open>SNAP_INSTANCE_NAME\<close> is absent from the environment and the
  invocation is not a version query, the run is fatal, and the whole of it is known: the
  arguments are parsed, the variable is read, and \<^verbatim>\<open>die\<close> is called (with the
  parser's message when the arguments did not parse, before the variable is even read).
  The ids and the environment block are those the process started with, and the trace
  holds no lock, no namespace operation and no id change.
\<close>

theorem C8_no_instance_name_is_fatal:
  assumes "init_env w ''SNAP_INSTANCE_NAME'' = None" and "\<not> version_query w"
  shows "run w =
     (Inl Fatal,
      \<lparr>ids = init_ids w, env = init_env w,
       trace = (case parsed w of
           Inl msg \<Rightarrow> [E_parse_args, E_die msg]
         | Inr a \<Rightarrow> [E_parse_args, E_getenv ''SNAP_INSTANCE_NAME'',
                     E_die ''SNAP_INSTANCE_NAME is not set''])\<rparr>)"
  using main_arguments_no_instance[of "start w" w] assms
  by (simp add: run_def main_def bnd_def start_def)

theorem C8_witness:
  "init_env bare_launch ''SNAP_INSTANCE_NAME'' = None \<and> \<not> version_query bare_launch \<and>
   run bare_launch =
     (Inl Fatal,
      \<lparr>ids = \<lparr>ruid = 1000, euid = 0, suid = 0, rgid = 1000, egid = 0, sgid = 0\<rparr>,
       env = Map.empty,
       trace = [E_parse_args, E_getenv ''SNAP_INSTANCE_NAME'',
                E_die ''SNAP_INSTANCE_NAME is not set'']\<rparr>)"
  using C8_no_instance_name_is_fatal[of bare_launch]
  by (simp add: bare_launch_def user_launch_def version_query_def)



subsection \<open>C10: the cookie is fetched for no hook, and set when there is one\<close>

lemmas cookie_defs = is_cookie_get_def is_cookie_set_def is_error_def is_execv_def
  is_hook_query_def cookie_quiet_def report_quiet_def unexec_def uncookied_def

lemma cookie_quiet_blocks:
  "stays cookie_quiet (\<lambda>_. ()) cookie_env (main_arguments w)"
  "stays cookie_quiet (\<lambda>_. ()) cookie_env (main_identity w)"
  "stays cookie_quiet (\<lambda>_. ()) cookie_env (main_apparmor w)"
  "stays cookie_quiet (\<lambda>_. ()) cookie_env geteuid"
  "stays cookie_quiet (\<lambda>_. ()) cookie_env (enter_global_init w)"
  "stays cookie_quiet (\<lambda>_. ()) cookie_env (enter_snap_lock w i)"
  "stays cookie_quiet (\<lambda>_. ()) cookie_env (enter_snap_namespace w)"
  "stays cookie_quiet (\<lambda>_. ()) cookie_env (sc_maybe_fixup_permissions w)"
  "stays cookie_quiet (\<lambda>_. ()) cookie_env (sc_maybe_fixup_udev w)"
  "stays cookie_quiet (\<lambda>_. ()) cookie_env (enter_user_namespace w u)"
  "stays cookie_quiet (\<lambda>_. ()) cookie_env (enter_freezer w i g sg)"
  "stays cookie_quiet (\<lambda>_. ()) cookie_env (enter_release w)"
  "stays cookie_quiet (\<lambda>_. ()) cookie_env (enter_environment w)"
  "stays cookie_quiet (\<lambda>_. ()) cookie_env (enter_devices w i)"
  "stays cookie_quiet (\<lambda>_. ()) cookie_env (temporary_drop w u g)"
  "stays cookie_quiet (\<lambda>_. ()) cookie_env (permanent_drop w u g)"
  "stays cookie_quiet (\<lambda>_. ()) cookie_env (main_exec w a)"
  "stays cookie_quiet (\<lambda>_. ()) cookie_env (main_policy w i None)"
  "stays (\<lambda>e. \<not> is_cookie_set e) (\<lambda>_. ()) cookie_env (main_cookie w i)"
  unfolding phase_defs tmpd_def
  by (intro stays_intros allI; fastforce simp: cookie_defs cookie_env_def)+

lemma unexec_blocks:
  "stays unexec (\<lambda>_. ()) (\<lambda>_. ()) (main_arguments w)"
  "stays unexec (\<lambda>_. ()) (\<lambda>_. ()) (main_identity w)"
  "stays unexec (\<lambda>_. ()) (\<lambda>_. ()) (main_cookie w i)"
  "stays unexec (\<lambda>_. ()) (\<lambda>_. ()) (main_apparmor w)"
  "stays unexec (\<lambda>_. ()) (\<lambda>_. ()) geteuid"
  "stays unexec (\<lambda>_. ()) (\<lambda>_. ()) (enter_global_init w)"
  "stays unexec (\<lambda>_. ()) (\<lambda>_. ()) (enter_snap_lock w i)"
  "stays unexec (\<lambda>_. ()) (\<lambda>_. ()) (enter_snap_namespace w)"
  "stays unexec (\<lambda>_. ()) (\<lambda>_. ()) (sc_maybe_fixup_permissions w)"
  "stays unexec (\<lambda>_. ()) (\<lambda>_. ()) (sc_maybe_fixup_udev w)"
  "stays unexec (\<lambda>_. ()) (\<lambda>_. ()) (enter_user_namespace w u)"
  "stays unexec (\<lambda>_. ()) (\<lambda>_. ()) (enter_freezer w i g sg)"
  "stays unexec (\<lambda>_. ()) (\<lambda>_. ()) (enter_release w)"
  "stays unexec (\<lambda>_. ()) (\<lambda>_. ()) (enter_environment w)"
  "stays unexec (\<lambda>_. ()) (\<lambda>_. ()) (enter_devices w i)"
  "stays unexec (\<lambda>_. ()) (\<lambda>_. ()) (temporary_drop w u g)"
  unfolding phase_defs tmpd_def
  by (intro stays_intros allI; fastforce simp: cookie_defs)+

lemma cookie_kept_frame:
  assumes "cookie_kept w s" and "frame cookie_quiet f cookie_env s s'"
  shows "cookie_kept w s'"
proof -
  from assms(2) obtain evs where evs: "trace s' = trace s @ evs" "list_all cookie_quiet evs"
    and en: "cookie_env (env s') = cookie_env (env s)"
    by (auto simp: frame_def)
  have "cookie_rule w e" if "cookie_quiet e" for e
    using that by (simp add: cookie_rule_def cookie_quiet_def)
  with evs(2) have "list_all (cookie_rule w) evs"
    by (simp add: list_all_iff)
  with assms(1) evs(1) en show ?thesis
    by (simp add: cookie_kept_def)
qed

lemma cookie_fetch_kept:
  assumes "parsed w = Inr a" and "security_tag i = args_security_tag a"
  shows "hoare (cookie_kept w) (main_cookie w i) (\<lambda>_. cookie_kept w) (\<lambda>_. cookie_kept w)"
  using assms unfolding hoare_def main_cookie_def cookie_kept_def
  by (auto simp: trace_defs cookie_rule_def the_tag_def cookie_defs split: option.splits)

lemma policy_kept:
  assumes "parsed w = Inr a" and "security_tag i = args_security_tag a"
  shows "hoare (cookie_kept w)
     (main_policy w i (if is_hook_tag w (args_security_tag a) then None else cookie w))
     (\<lambda>_. cookie_kept w) (\<lambda>_. cookie_kept w)"
  using assms unfolding hoare_def main_policy_def cookie_kept_def
  by (auto simp: trace_defs cookie_rule_def the_tag_def token_def cookie_defs split: option.splits)

lemma main_cookie_kept:
  "hoare (\<lambda>s. cookie_kept w s \<and> ids s = c0) (main w) (\<lambda>_ _. True) (\<lambda>_. cookie_kept w)"
  by (rule main_keeps[where I="cookie_kept w"];
      (rule cookie_fetch_kept, assumption, assumption |
       rule policy_kept, assumption, assumption |
       (rule hoare_frame, rule cookie_quiet_blocks, (simp | blast intro: cookie_kept_frame)+)))

lemmas report_defs = report_rule_def report_settled_def fetch_due_def report_due_def
  reported_last_def answered_def

lemma report_step:
  "report_settled w pre \<Longrightarrow> report_quiet e \<Longrightarrow>
   report_rule w pre e \<and> report_settled w (pre @ [e])"
  by (auto simp: report_defs report_quiet_def)

lemma reported_frame_any:
  assumes "reported w s" and "frame report_quiet f g s s'"
  shows "reported w s'"
proof -
  from assms(2) obtain evs where evs: "trace s' = trace s @ evs" "list_all report_quiet evs"
    by (auto simp: frame_def)
  from assms(1) have a: "each_step (report_rule w) [] (trace s)"
    and b: "report_settled w (trace s)"
    by (simp_all add: reported_def)
  have "each_step (report_rule w) [] (trace s @ evs) \<and> report_settled w (trace s @ evs)"
    by (rule each_step_frame[where A=report_quiet and I="report_settled w",
          OF report_step a b evs(2)])
  with evs show ?thesis by (simp add: reported_def)
qed

lemma reported_frame:
  assumes "reported w s" and "frame cookie_quiet f g s s'"
  shows "reported w s'"
  by (rule reported_frame_any[OF assms(1) frame_mono[OF assms(2)]])
     (simp add: cookie_quiet_def report_quiet_def)

lemma cookie_fetch_reports:
  assumes "security_tag i = the_tag w"
  shows "hoare (reported w) (main_cookie w i) (\<lambda>_. report_pending w) (\<lambda>_. reported w)"
  using assms unfolding hoare_def main_cookie_def reported_def report_pending_def
  by (auto simp: trace_defs each_step_append report_defs cookie_defs
      butlast_append split: option.splits)

lemma apparmor_after_report:
  "hoare (report_pending w) (main_apparmor w) (\<lambda>_. reported w) (\<lambda>_. reported w)"
  unfolding hoare_def main_apparmor_def reported_def report_pending_def
  by (auto simp: trace_defs each_step_append report_defs cookie_defs
      butlast_append split: option.splits)

lemma policy_quiet:
  "stays report_quiet (\<lambda>_. ()) (\<lambda>_. ()) (main_policy w i x)"
  unfolding phase_defs
  by (intro stays_intros allI; fastforce simp: cookie_defs)+

lemma policy_reported:
  "hoare (reported w) (main_policy w i x) (\<lambda>_. reported w) (\<lambda>_. reported w)"
  by (rule hoare_frame[OF policy_quiet]) (blast intro: reported_frame_any)+

lemma main_reported:
  "hoare (\<lambda>s. reported w s \<and> ids s = c0) (main w) (\<lambda>_ _. True) (\<lambda>_. reported w)"
proof (rule main_values[where Ja="reported w" and Jb="reported w" and Jc="reported w"
        and Jd="report_pending w"
        and Je="reported w" and Jf="reported w" and Jg="reported w" and Jh="reported w"])
  fix a and i :: sc_invocation
  assume "parsed w = Inr a" "security_tag i = args_security_tag a"
  then have "security_tag i = the_tag w"
    by (simp add: the_tag_def)
  then show "hoare (reported w) (main_cookie w i) (\<lambda>_. report_pending w) (\<lambda>_. reported w)"
    by (rule cookie_fetch_reports)
  show "hoare (reported w) (main_enter w a i c0) (\<lambda>_. reported w) (\<lambda>_. reported w)"
    by (rule main_enter_keeps;
        (rule hoare_frame, rule cookie_quiet_blocks, (simp | blast intro: reported_frame)+))
  show "hoare (reported w)
     (main_policy w i (if is_hook_tag w (args_security_tag a) then None else cookie w))
     (\<lambda>_. reported w) (\<lambda>_. reported w)"
    by (rule policy_reported)
qed (rule apparmor_after_report |
     (rule hoare_frame, rule cookie_quiet_blocks, (simp | blast intro: reported_frame)+))+

lemma cookie_unset_frame:
  "cookie_unset s \<Longrightarrow> frame unexec f g s s' \<Longrightarrow> cookie_unset s'"
  by (auto simp: frame_def cookie_unset_def unexec_def list_all_iff list_ex_iff
      filter_empty_conv)

lemma cookie_written_frame:
  assumes "cookie_written w v s" and "frame cookie_quiet f cookie_env s s'"
  shows "cookie_written w v s'"
proof -
  from assms(2) obtain evs where evs: "trace s' = trace s @ evs" "list_all cookie_quiet evs"
    and en: "cookie_env (env s') = cookie_env (env s)"
    by (auto simp: frame_def)
  from evs(2) have "filter is_cookie_set evs = []"
    by (auto simp: filter_empty_conv list_all_iff cookie_quiet_def)
  with assms(1) evs(1) en show ?thesis
    by (auto simp: cookie_written_def each_step_append cookie_env_def)
qed

lemma policy_writes:
  "hoare cookie_unset (main_policy w i (Some v)) (\<lambda>_. cookie_written w v)
     (\<lambda>_ s. \<not> list_ex is_execv (trace s))"
  unfolding hoare_def main_policy_def cookie_unset_def cookie_written_def
  by (auto simp: trace_defs each_step_append unfailed_def cookie_defs)

lemma unset_block:
  assumes "stays unexec f g m"
  shows "hoare cookie_unset m (\<lambda>_. cookie_unset) (\<lambda>_ s. list_ex is_execv (trace s) \<longrightarrow> R s)"
proof (rule hoare_frame[OF assms])
  fix s s' assume "cookie_unset s" "frame unexec f g s s'"
  then have "cookie_unset s'" by (rule cookie_unset_frame)
  then show "cookie_unset s'" and "list_ex is_execv (trace s') \<longrightarrow> R s'"
    by (simp_all add: cookie_unset_def)
qed

lemma written_block:
  assumes "stays cookie_quiet f cookie_env m"
  shows "hoare (cookie_written w v) m (\<lambda>_ s. C \<longrightarrow> cookie_written w v s)
    (\<lambda>_ s. list_ex is_execv (trace s) \<longrightarrow> cookie_written w v s)"
  by (rule hoare_frame[OF assms]) (blast intro: cookie_written_frame)+

lemma main_writes:
  assumes "token w = Some v"
  shows "hoare (\<lambda>s. cookie_unset s \<and> ids s = c0) (main w) (\<lambda>_ _. True)
     (\<lambda>_ s. list_ex is_execv (trace s) \<longrightarrow> cookie_written w v s)"
proof (rule main_values[where Ja=cookie_unset and Jb=cookie_unset and Jc=cookie_unset
        and Jd=cookie_unset and Je=cookie_unset and Jf=cookie_unset
        and Jg="cookie_written w v" and Jh="cookie_written w v"])
  fix a and i :: sc_invocation
  assume "parsed w = Inr a" "security_tag i = args_security_tag a"
  with assms have x: "(if is_hook_tag w (args_security_tag a) then None else cookie w) = Some v"
    by (simp add: token_def the_tag_def split: if_splits)
  show "hoare cookie_unset
     (main_policy w i (if is_hook_tag w (args_security_tag a) then None else cookie w))
     (\<lambda>_. cookie_written w v)
     (\<lambda>_ s. list_ex is_execv (trace s) \<longrightarrow> cookie_written w v s)"
    unfolding x by (rule hoare_weaken[OF policy_writes]) simp_all
  show "hoare cookie_unset (main_enter w a i c0) (\<lambda>_. cookie_unset)
     (\<lambda>_ s. list_ex is_execv (trace s) \<longrightarrow> cookie_written w v s)"
    by (rule main_enter_keeps; rule unset_block, rule unexec_blocks)
next
  fix a
  show "hoare (cookie_written w v) (main_exec w a) (\<lambda>_ _. True)
     (\<lambda>_ s. list_ex is_execv (trace s) \<longrightarrow> cookie_written w v s)"
    using written_block[OF cookie_quiet_blocks(17), where C=False] by simp
next
  show "hoare (cookie_written w v) (permanent_drop w (ruid c0) (rgid c0))
     (\<lambda>_. cookie_written w v)
     (\<lambda>_ s. list_ex is_execv (trace s) \<longrightarrow> cookie_written w v s)"
    using written_block[OF cookie_quiet_blocks(16), where C=True] by simp
qed (rule unset_block, rule unexec_blocks)+

lemma hook_launch_run:
  "outcome hook_launch = Inl (Exec ''/usr/lib/snapd/snap-exec'') \<and>
   filter (\<lambda>e. is_cookie_get e \<or> is_cookie_set e \<or> is_error e) (trace (final hook_launch)) = [] \<and>
   env (final hook_launch) ''SNAP_COOKIE'' = Some ''h00k'' \<and>
   env (final hook_launch) ''SNAP_CONTEXT'' = None"
  by (simp add: eval_defs hook_launch_def user_launch_def cookie_defs)

lemma tokenless_launch_run:
  "outcome tokenless_launch = Inl (Exec ''/usr/lib/snapd/snap-exec'') \<and>
   filter (\<lambda>e. is_cookie_get e \<or> is_cookie_set e \<or> is_error e) (trace (final tokenless_launch)) =
     [E_cookie_get_from_snapd ''app'', E_error ''cannot connect to snapd''] \<and>
   env (final tokenless_launch) ''SNAP_COOKIE'' = None \<and>
   env (final tokenless_launch) ''SNAP_CONTEXT'' = None"
  by (simp add: eval_defs tokenless_launch_def user_launch_def cookie_defs)

lemma user_launch_cookie:
  "filter (\<lambda>e. is_cookie_get e \<or> is_cookie_set e \<or> is_error e) (trace (final user_launch)) =
     [E_cookie_get_from_snapd ''app'', E_setenv ''SNAP_COOKIE'' ''c00kie'',
      E_setenv ''SNAP_CONTEXT'' ''c00kie''] \<and>
   list_ex is_execv (trace (final user_launch)) \<and>
   env (final user_launch) ''SNAP_COOKIE'' = Some ''c00kie'' \<and>
   env (final user_launch) ''SNAP_CONTEXT'' = Some ''c00kie''"
  by (simp add: eval_defs user_launch_def cookie_defs)

lemma launch_tokens:
  "token user_launch = Some ''c00kie'' \<and> token hook_launch = None \<and>
   is_hook_tag hook_launch (the_tag hook_launch) \<and>
   token tokenless_launch = None \<and> \<not> is_hook_tag tokenless_launch (the_tag tokenless_launch)"
  by (simp add: token_def the_tag_def hook_launch_def tokenless_launch_def user_launch_def)

text \<open>What holds of the cookie in every run: \<^verbatim>\<open>sc_cookie_get_from_snapd\<close> is called
  exactly after the tag was found not to be that of a hook, and \<^verbatim>\<open>setenv\<close> is called
  for \<^verbatim>\<open>SNAP_COOKIE\<close> or \<^verbatim>\<open>SNAP_CONTEXT\<close> only with the token obtained.  An error
  of the fetch is passed to \<^verbatim>\<open>error\<close>, exactly then, and the run goes on with
  \<^verbatim>\<open>sc_init_apparmor_support\<close>; no run stops where the fetch or the report is due,
  or at the report.  Without a token (a hook, or nothing obtained) both variables end as
  they were inherited.  With a token, a run that reaches \<^verbatim>\<open>execv\<close> has called
  \<^verbatim>\<open>setenv\<close> for \<^verbatim>\<open>SNAP_COOKIE\<close> and then for \<^verbatim>\<open>SNAP_CONTEXT\<close> with it, and each
  variable holds the token unless that call failed.\<close>

lemma cookie_for_no_hook_and_set_when_obtained:
  "list_all (cookie_rule w) (trace (final w)) \<and>
   each_step (report_rule w) [] (trace (final w)) \<and> report_settled w (trace (final w)) \<and>
   (token w = None \<longrightarrow>
      env (final w) ''SNAP_COOKIE'' = init_env w ''SNAP_COOKIE'' \<and>
      env (final w) ''SNAP_CONTEXT'' = init_env w ''SNAP_CONTEXT'') \<and>
   (\<forall>v. token w = Some v \<and> list_ex is_execv (trace (final w)) \<longrightarrow> cookie_written w v (final w))"
proof -
  have a: "cookie_kept w (final w)"
    using hoare_final[OF main_cookie_kept, of w "init_ids w"]
    by (auto simp: start_def cookie_kept_def)
  have b: "reported w (final w)"
    using hoare_final[OF main_reported, of w "init_ids w"]
    by (auto simp: start_def reported_def report_defs)
  have c: "cookie_written w v (final w)"
    if "token w = Some v" "list_ex is_execv (trace (final w))" for v
    using hoare_final[OF main_writes[OF that(1)], of "init_ids w"] that(2)
    by (auto simp: start_def cookie_unset_def)
  from a b c show ?thesis
    by (auto simp: cookie_kept_def reported_def cookie_env_def)
qed

text \<open>The launch of a hook, and the launch for which snapd has no cookie and an error:
  the error is reported, and the snap is executed.\<close>

lemma cookie_launches:
  "token hook_launch = None \<and> is_hook_tag hook_launch (the_tag hook_launch) \<and>
   init_env hook_launch ''SNAP_COOKIE'' = Some ''h00k'' \<and>
   env (final hook_launch) ''SNAP_COOKIE'' = Some ''h00k'' \<and>
   filter (\<lambda>e. is_cookie_get e \<or> is_cookie_set e \<or> is_error e) (trace (final hook_launch)) = [] \<and>
   token tokenless_launch = None \<and>
   cookie_err tokenless_launch = Some ''cannot connect to snapd'' \<and>
   outcome tokenless_launch = Inl (Exec ''/usr/lib/snapd/snap-exec'') \<and>
   filter (\<lambda>e. is_cookie_get e \<or> is_cookie_set e \<or> is_error e) (trace (final tokenless_launch)) =
     [E_cookie_get_from_snapd ''app'', E_error ''cannot connect to snapd''] \<and>
   each_step (report_rule tokenless_launch) [] (trace (final tokenless_launch)) \<and>
   token user_launch = Some ''c00kie'' \<and>
   cookie_written user_launch ''c00kie'' (final user_launch) \<and>
   env (final user_launch) ''SNAP_COOKIE'' = Some ''c00kie'' \<and>
   env (final user_launch) ''SNAP_CONTEXT'' = Some ''c00kie''"
proof -
  have "init_env hook_launch ''SNAP_COOKIE'' = Some ''h00k'' \<and>
     cookie_err tokenless_launch = Some ''cannot connect to snapd''"
    by (simp add: hook_launch_def tokenless_launch_def user_launch_def)
  then show ?thesis
    using cookie_for_no_hook_and_set_when_obtained[of user_launch]
      cookie_for_no_hook_and_set_when_obtained[of tokenless_launch]
      launch_tokens hook_launch_run tokenless_launch_run user_launch_cookie
    by simp
qed

lemma cookie_fails_launch_run:
  "outcome cookie_fails_launch = Inl (Exec ''/usr/lib/snapd/snap-exec'') \<and>
   filter is_cookie_set (trace (final cookie_fails_launch)) =
     [E_setenv ''SNAP_COOKIE'' ''c00kie'', E_setenv ''SNAP_CONTEXT'' ''c00kie''] \<and>
   env (final cookie_fails_launch) ''SNAP_COOKIE'' = None \<and>
   env (final cookie_fails_launch) ''SNAP_CONTEXT'' = Some ''c00kie''"
  by (simp add: launch_defs cookie_fails_launch_def user_launch_def is_cookie_set_def)

text \<open>
  Claim C10 says that the token is written into both \<^verbatim>\<open>SNAP_COOKIE\<close> and
  \<^verbatim>\<open>SNAP_CONTEXT\<close> exactly when one was obtained.  The results of the two
  \<^verbatim>\<open>setenv\<close> calls of lines 233 and 235 are not read, though: in the launch of a
  command (no hook) for which snapd gave the token \<^verbatim>\<open>c00kie\<close>, when the
  \<^verbatim>\<open>setenv\<close> for \<^verbatim>\<open>SNAP_COOKIE\<close> fails the launch goes on, sets
  \<^verbatim>\<open>SNAP_CONTEXT\<close>, and reaches \<^verbatim>\<open>execv\<close> with no \<^verbatim>\<open>SNAP_COOKIE\<close> in the
  environment.
\<close>

theorem C10_cookie_is_not_set_when_setenv_fails:
  "token cookie_fails_launch = Some ''c00kie'' \<and>
   \<not> is_hook_tag cookie_fails_launch (the_tag cookie_fails_launch) \<and>
   init_env cookie_fails_launch ''SNAP_COOKIE'' = None \<and>
   outcome cookie_fails_launch = Inl (Exec ''/usr/lib/snapd/snap-exec'') \<and>
   filter is_cookie_set (trace (final cookie_fails_launch)) =
     [E_setenv ''SNAP_COOKIE'' ''c00kie'', E_setenv ''SNAP_CONTEXT'' ''c00kie''] \<and>
   env (final cookie_fails_launch) ''SNAP_COOKIE'' = None \<and>
   env (final cookie_fails_launch) ''SNAP_CONTEXT'' = Some ''c00kie''"
proof -
  have "token cookie_fails_launch = Some ''c00kie'' \<and>
     \<not> is_hook_tag cookie_fails_launch (the_tag cookie_fails_launch) \<and>
     init_env cookie_fails_launch ''SNAP_COOKIE'' = None"
    by (simp add: token_def the_tag_def cookie_fails_launch_def user_launch_def)
  then show ?thesis
    using cookie_fails_launch_run by simp
qed

end
